theory Spec2Isabelle
  imports Complex_Main "HOL-Library.Word"
begin

unbundle bit_operations_syntax

section \<open>JavaScript numbers\<close>

text \<open>
  A JavaScript number is an IEEE 754 binary64 value: \<open>NaN\<close>, one of the two infinities, or
  a finite value, kept here as the rational it denotes. The sign of zero is not modelled.
  Every arithmetic operation computes the exact result and rounds it to the nearest
  binary64 value, a tie going to the even significand (\<open>round64\<close>).
\<close>

datatype number = NaN | PInf | NInf | Fin rat

text \<open>\<open>log2floor n\<close> is the position of the highest set bit of \<open>n\<close>.\<close>

fun log2floor :: "nat \<Rightarrow> nat" where
  "log2floor n = (if n < 2 then 0 else 1 + log2floor (n div 2))"

declare log2floor.simps [simp del]

definition pow2 :: "int \<Rightarrow> rat" where
  "pow2 e = (if 0 \<le> e then 2 ^ nat e else 1 / 2 ^ nat (- e))"

text \<open>The binary exponent of a positive rational \<open>r\<close>: the \<open>e\<close> with \<open>2^e \<le> r < 2^(e+1)\<close>.\<close>

definition exponent_of :: "rat \<Rightarrow> int" where
  "exponent_of r =
     (if 1 \<le> r then int (log2floor (nat \<lfloor>r\<rfloor>))
      else
        let k = log2floor (nat \<lfloor>1 / r\<rfloor>)
        in if r * 2 ^ k = 1 then - int k else - int k - 1)"

definition round_half_even :: "rat \<Rightarrow> int" where
  "round_half_even x =
     (let f = \<lfloor>x\<rfloor>; d = x - of_int f
      in if d < 1 / 2 then f
         else if 1 / 2 < d then f + 1
         else if even f then f else f + 1)"

text \<open>
  Rounding to binary64: 53 significant bits, exponents from \<open>-1022\<close> (below it the
  spacing stays \<open>2^-1074\<close>: subnormal numbers) to \<open>1023\<close> (beyond it: an infinity).
\<close>

definition round64 :: "rat \<Rightarrow> number" where
  "round64 r =
     (if r = 0 then Fin 0
      else
        let e = max (exponent_of \<bar>r\<bar>) (- 1022);
            q = pow2 (e - 52);
            v = of_int (round_half_even (r / q)) * q
        in if 2 ^ 1024 \<le> \<bar>v\<bar> then (if 0 < r then PInf else NInf) else Fin v)"

text \<open>
  Addition. Adding zero gives back the other operand, as it is in IEEE 754; every other
  finite sum is rounded.
\<close>

fun jadd :: "number \<Rightarrow> number \<Rightarrow> number" where
  "jadd NaN y = NaN"
| "jadd x NaN = NaN"
| "jadd PInf NInf = NaN"
| "jadd NInf PInf = NaN"
| "jadd PInf y = PInf"
| "jadd x PInf = PInf"
| "jadd NInf y = NInf"
| "jadd x NInf = NInf"
| "jadd (Fin a) (Fin b) = (if b = 0 then Fin a else if a = 0 then Fin b else round64 (a + b))"

fun jneg :: "number \<Rightarrow> number" where
  "jneg NaN = NaN"
| "jneg PInf = NInf"
| "jneg NInf = PInf"
| "jneg (Fin a) = Fin (- a)"

definition jsub :: "number \<Rightarrow> number \<Rightarrow> number" where
  "jsub x y = jadd x (jneg y)"

text \<open>The sign of a non-\<open>NaN\<close> number: \<open>-1\<close>, \<open>0\<close> or \<open>1\<close>.\<close>

fun jsign :: "number \<Rightarrow> int" where
  "jsign NaN = 0"
| "jsign PInf = 1"
| "jsign NInf = - 1"
| "jsign (Fin a) = (if a < 0 then - 1 else if a = 0 then 0 else 1)"

definition signed_inf :: "int \<Rightarrow> number" where
  "signed_inf s = (if s = 0 then NaN else if 0 < s then PInf else NInf)"

text \<open>
  Multiplication and division: \<open>Infinity * 0\<close> and \<open>0 / 0\<close> are \<open>NaN\<close>, a nonzero finite
  value divided by zero is an infinity, a finite value divided by an infinity is zero.
\<close>

fun jmul :: "number \<Rightarrow> number \<Rightarrow> number" where
  "jmul NaN y = NaN"
| "jmul x NaN = NaN"
| "jmul (Fin a) (Fin b) = round64 (a * b)"
| "jmul x y = signed_inf (jsign x * jsign y)"

fun jdiv :: "number \<Rightarrow> number \<Rightarrow> number" where
  "jdiv NaN y = NaN"
| "jdiv x NaN = NaN"
| "jdiv (Fin a) (Fin b) = (if b = 0 then signed_inf (jsign (Fin a)) else round64 (a / b))"
| "jdiv (Fin a) y = Fin 0"
| "jdiv x (Fin b) = signed_inf (jsign x * (if b < 0 then - 1 else 1))"
| "jdiv x y = NaN"

text \<open>The comparison \<open>x > y\<close>.\<close>

fun jgt :: "number \<Rightarrow> number \<Rightarrow> bool" where
  "jgt NaN y = False"
| "jgt x NaN = False"
| "jgt x PInf = False"
| "jgt PInf y = True"
| "jgt NInf y = False"
| "jgt x NInf = True"
| "jgt (Fin a) (Fin b) = (b < a)"

subsection \<open>\<open>parseFloat\<close>\<close>

text \<open>
  \<open>parseFloat\<close> skips leading white space and reads the longest prefix that is a decimal
  literal: an optional sign, then \<open>Infinity\<close> or digits with an optional fraction and an
  optional exponent. Anything after that prefix is ignored; when there is no such prefix
  the result is \<open>NaN\<close>. The decimal value read is rounded to binary64.
\<close>

text \<open>
  A string is the list of the bytes of its UTF-8 encoding, here and in the signer. The
  white space that is skipped is the white space and the line terminators of JavaScript:
  U+0009 to U+000D and U+0020, one byte each; U+00A0, the two bytes \<open>C2 A0\<close>; and, three
  bytes each, U+1680, U+2000 to U+200A, U+2028, U+2029, U+202F, U+205F, U+3000 and
  U+FEFF.
\<close>

definition white_space :: "string list" where
  "white_space =
     [[CHR 0x09], [CHR 0x0A], [CHR 0x0B], [CHR 0x0C], [CHR 0x0D], [CHR 0x20],
      [CHR 0xC2, CHR 0xA0],
      [CHR 0xE1, CHR 0x9A, CHR 0x80],
      [CHR 0xE2, CHR 0x80, CHR 0x80], [CHR 0xE2, CHR 0x80, CHR 0x81],
      [CHR 0xE2, CHR 0x80, CHR 0x82], [CHR 0xE2, CHR 0x80, CHR 0x83],
      [CHR 0xE2, CHR 0x80, CHR 0x84], [CHR 0xE2, CHR 0x80, CHR 0x85],
      [CHR 0xE2, CHR 0x80, CHR 0x86], [CHR 0xE2, CHR 0x80, CHR 0x87],
      [CHR 0xE2, CHR 0x80, CHR 0x88], [CHR 0xE2, CHR 0x80, CHR 0x89],
      [CHR 0xE2, CHR 0x80, CHR 0x8A],
      [CHR 0xE2, CHR 0x80, CHR 0xA8], [CHR 0xE2, CHR 0x80, CHR 0xA9],
      [CHR 0xE2, CHR 0x80, CHR 0xAF],
      [CHR 0xE2, CHR 0x81, CHR 0x9F],
      [CHR 0xE3, CHR 0x80, CHR 0x80],
      [CHR 0xEF, CHR 0xBB, CHR 0xBF]]"

text \<open>The number of bytes of the white space character a string starts with, or \<open>0\<close>.\<close>

definition space_length :: "string \<Rightarrow> nat" where
  "space_length s =
     (case filter (\<lambda>w. take (length w) s = w) white_space of
        [] \<Rightarrow> 0
      | w # ws \<Rightarrow> length w)"

fun skip_space :: "string \<Rightarrow> string" where
  "skip_space [] = []"
| "skip_space (c # s) =
     (if space_length (c # s) = 0 then c # s
      else skip_space (drop (space_length (c # s) - 1) s))"

definition is_digit :: "char \<Rightarrow> bool" where
  "is_digit c = (c \<in> set ''0123456789'')"

definition digit_val :: "char \<Rightarrow> nat" where
  "digit_val c = of_char c - 48"

definition digits_val :: "string \<Rightarrow> nat" where
  "digits_val ds = foldl (\<lambda>n c. 10 * n + digit_val c) 0 ds"

definition split_sign :: "string \<Rightarrow> rat \<times> string" where
  "split_sign s =
     (case s of
        c # r \<Rightarrow> if c = CHR ''+'' then (1, r) else if c = CHR ''-'' then (- 1, r) else (1, s)
      | [] \<Rightarrow> (1, s))"

definition exponent_part :: "string \<Rightarrow> int" where
  "exponent_part s =
     (case s of
        c # r \<Rightarrow>
          if c = CHR ''e'' \<or> c = CHR ''E'' then
            (let (sg, t) = split_sign r; ed = takeWhile is_digit t
             in if ed = [] then 0
                else if sg < 0 then - int (digits_val ed) else int (digits_val ed))
          else 0
      | [] \<Rightarrow> 0)"

definition scale10 :: "rat \<Rightarrow> int \<Rightarrow> rat" where
  "scale10 m e = (if 0 \<le> e then m * 10 ^ nat e else m / 10 ^ nat (- e))"

text \<open>The value of the literal read, before rounding.\<close>

definition read_decimal :: "string \<Rightarrow> number" where
  "read_decimal s =
     (let (sg, s2) = split_sign (skip_space s) in
      if take 8 s2 = ''Infinity'' then (if 0 < sg then PInf else NInf)
      else
        let ip = takeWhile is_digit s2;
            r1 = dropWhile is_digit s2;
            (fp, r2) = (case r1 of
                          c # t \<Rightarrow> if c = CHR ''.''
                                   then (takeWhile is_digit t, dropWhile is_digit t)
                                   else ([], r1)
                        | [] \<Rightarrow> ([], r1))
        in if ip = [] \<and> fp = [] then NaN
           else Fin (sg * scale10 (of_nat (digits_val (ip @ fp)) / 10 ^ length fp)
                                  (exponent_part r2)))"

fun to_binary64 :: "number \<Rightarrow> number" where
  "to_binary64 (Fin r) = round64 r"
| "to_binary64 x = x"

definition parseFloat :: "string \<Rightarrow> number" where
  "parseFloat s = to_binary64 (read_decimal s)"

text \<open>A string is truthy exactly when it is not empty.\<close>

definition truthy :: "string \<Rightarrow> bool" where
  "truthy s = (s \<noteq> [])"

subsection \<open>\<open>Math.round\<close> and \<open>toFixed\<close>\<close>

text \<open>
  \<open>Math.round\<close> rounds to the nearest integer, a tie going towards \<open>+Infinity\<close>. The
  result is exact: the integer nearest to a binary64 value is a binary64 value.
\<close>

fun Math_round :: "number \<Rightarrow> number" where
  "Math_round (Fin a) = Fin (of_int \<lfloor>a + 1 / 2\<rfloor>)"
| "Math_round x = x"

definition digit_char :: "nat \<Rightarrow> char" where
  "digit_char d = ''0123456789'' ! d"

fun digits_of :: "nat \<Rightarrow> string" where
  "digits_of n = (if n < 10 then [digit_char n] else digits_of (n div 10) @ [digit_char (n mod 10)])"

declare digits_of.simps [simp del]

text \<open>
  The decimal digits of the integer \<open>n\<close> with a point before the last \<open>f\<close> of them, padded
  with zeros on the left so that at least one digit stands before the point.
\<close>

definition fixed_point :: "nat \<Rightarrow> nat \<Rightarrow> string" where
  "fixed_point f n =
     (let m = digits_of n in
      if f = 0 then m
      else
        let k = length m;
            m' = (if k \<le> f then replicate (f + 1 - k) (CHR ''0'') @ m else m)
        in take (length m' - f) m' @ ''.'' @ drop (length m' - f) m')"

text \<open>
  From \<open>10^21\<close> on, \<open>toFixed\<close> prints what \<open>String\<close> prints: exponential notation. The
  digits printed here are all the digits of the value (a binary64 value of that size is an
  integer), where \<open>String\<close> stops at the shortest digit string that reads back as
  the same binary64 value.
\<close>

definition exponential :: "rat \<Rightarrow> string" where
  "exponential a =
     (let ds = digits_of (nat \<lfloor>a\<rfloor>);
          sg = rev (dropWhile (\<lambda>c. c = CHR ''0'') (rev (tl ds)))
      in hd ds # (if sg = [] then [] else CHR ''.'' # sg) @ ''e+'' @ digits_of (length ds - 1))"

text \<open>
  \<open>x.toFixed(f)\<close>: the integer \<open>n\<close> closest to \<open>x * 10^f\<close> (the larger one on a tie, for
  the absolute value of \<open>x\<close>), printed with \<open>f\<close> digits after the point. The product is
  the exact one, of the value the binary64 number denotes.
\<close>

fun toFixed :: "nat \<Rightarrow> number \<Rightarrow> string" where
  "toFixed f NaN = ''NaN''"
| "toFixed f PInf = ''Infinity''"
| "toFixed f NInf = ''-Infinity''"
| "toFixed f (Fin x) =
     (if x < 0 then ''-'' else []) @
     (if 10 ^ 21 \<le> \<bar>x\<bar> then exponential \<bar>x\<bar>
      else fixed_point f (nat \<lfloor>\<bar>x\<bar> * 10 ^ f + 1 / 2\<rfloor>))"

section \<open>Valuation\<close>

text \<open>One entry of the exchange's balance list: all three fields are strings.\<close>

record balance =
  asset :: string
  free :: string
  locked :: string

text \<open>The price table: the object built from the ticker list, symbol to price string.\<close>

type_synonym prices = "string \<rightharpoonup> string"

text \<open>
  \<open>calculateTotalBalance\<close>: the \<open>forEach\<close> loop that updates \<open>total\<close> is a left fold over
  the balances, starting from \<open>0\<close>.
\<close>

definition balance_step :: "prices \<Rightarrow> number \<Rightarrow> balance \<Rightarrow> number" where
  "balance_step prices tot b =
     (let freeN = parseFloat (free b);
          lockedN = parseFloat (locked b);
          totalAmount = jadd freeN lockedN
      in if jgt totalAmount (Fin 0) then
           if asset b = ''USDT'' then jadd tot totalAmount
           else if asset b = ''BUSD'' then jadd tot totalAmount
           else
             (case prices (asset b @ ''USDT'') of
                None \<Rightarrow> tot
              | Some price \<Rightarrow>
                  if truthy price then jadd tot (jmul totalAmount (parseFloat price))
                  else tot)
         else tot)"

definition calculateTotalBalance :: "balance list \<Rightarrow> prices \<Rightarrow> number" where
  "calculateTotalBalance balances prices = foldl (balance_step prices) (Fin 0) balances"

subsection \<open>The balance response\<close>

text \<open>The account snapshot returned by the exchange: the balances and the fields passed through.\<close>

record accountData =
  balances :: "balance list"
  updateTime :: nat
  permissions :: "string list"
  canTrade :: bool
  canWithdraw :: bool
  canDeposit :: bool

text \<open>One row of the per-asset list of the response.\<close>

record asset_row =
  row_asset :: string
  row_free :: number
  row_locked :: number
  row_total :: number
  usdtValue :: number

text \<open>The body of the response of \<open>GET /api/wallet/balance\<close>; \<open>btcValue\<close> is an optional field.\<close>

record balanceData =
  total_field :: number
  available :: number
  inOrders :: number
  currency :: string
  timestamp_field :: string
  exchangeTimestamp :: nat
  dayChangePercent :: number
  balances_field :: "asset_row list"
  permissions_field :: "string list"
  canTrade_field :: bool
  canWithdraw_field :: bool
  canDeposit_field :: bool
  btcValue :: "string option"

text \<open>\<open>accountData.balances.filter(...)\<close>: the entries with a positive \<open>free\<close> or \<open>locked\<close>.\<close>

definition nonZeroBalances :: "balance list \<Rightarrow> balance list" where
  "nonZeroBalances bs =
     filter (\<lambda>b. jgt (parseFloat (free b)) (Fin 0) \<or> jgt (parseFloat (locked b)) (Fin 0)) bs"

text \<open>\<open>Math.round(x * 100) / 100\<close>.\<close>

definition round2 :: "number \<Rightarrow> number" where
  "round2 x = jdiv (Math_round (jmul x (Fin 100))) (Fin 100)"

definition asset_row_of :: "prices \<Rightarrow> balance \<Rightarrow> asset_row" where
  "asset_row_of prices b =
     \<lparr> row_asset = asset b,
       row_free = parseFloat (free b),
       row_locked = parseFloat (locked b),
       row_total = jadd (parseFloat (free b)) (parseFloat (locked b)),
       usdtValue =
         (if asset b = ''USDT'' then jadd (parseFloat (free b)) (parseFloat (locked b))
          else (case prices (asset b @ ''USDT'') of
                  None \<Rightarrow> Fin 0
                | Some price \<Rightarrow>
                    if truthy price
                    then jmul (jadd (parseFloat (free b)) (parseFloat (locked b))) (parseFloat price)
                    else Fin 0)) \<rparr>"

text \<open>
  The part of the handler between the two network calls and \<open>res.json\<close>. The argument
  \<open>now_iso\<close> stands for \<open>new Date().toISOString()\<close>.
\<close>

definition balanceData_of :: "accountData \<Rightarrow> prices \<Rightarrow> string \<Rightarrow> balanceData" where
  "balanceData_of acct prices now_iso =
     (let nz = nonZeroBalances (balances acct);
          totalBalance = calculateTotalBalance nz prices;
          availableBalance = calculateTotalBalance (map (\<lambda>b. b\<lparr>locked := ''0''\<rparr>) nz) prices;
          lockedBalance = jsub totalBalance availableBalance
      in \<lparr> total_field = round2 totalBalance,
           available = round2 availableBalance,
           inOrders = round2 lockedBalance,
           currency = ''USDT'',
           timestamp_field = now_iso,
           exchangeTimestamp = updateTime acct,
           dayChangePercent = Fin 0,
           balances_field = filter (\<lambda>r. jgt (row_total r) (Fin 0)) (map (asset_row_of prices) nz),
           permissions_field = permissions acct,
           canTrade_field = canTrade acct,
           canWithdraw_field = canWithdraw acct,
           canDeposit_field = canDeposit acct,
           btcValue =
             (case prices ''BTCUSDT'' of
                None \<Rightarrow> None
              | Some btcPrice \<Rightarrow>
                  if truthy btcPrice
                  then Some (toFixed 8 (jdiv totalBalance (parseFloat btcPrice)))
                  else None) \<rparr>)"

subsection \<open>The valuation as the specification words it\<close>

definition total_amount :: "balance \<Rightarrow> number" where
  "total_amount b = jadd (parseFloat (free b)) (parseFloat (locked b))"

text \<open>
  What one entry adds. A price is found under a key when the table has an entry there that
  is not the empty string; an empty entry is no price.
\<close>

definition spec_contribution :: "prices \<Rightarrow> balance \<Rightarrow> number" where
  "spec_contribution prices b =
     (if asset b = ''USDT'' then total_amount b
      else if asset b = ''BUSD'' then total_amount b
      else (case prices (asset b @ ''USDT'') of
              Some price \<Rightarrow>
                if price = [] then Fin 0 else jmul (total_amount b) (parseFloat price)
            | None \<Rightarrow> Fin 0))"

text \<open>The sum of a list of numbers, taken from left to right starting at \<open>0\<close>.\<close>

definition sum_numbers :: "number list \<Rightarrow> number" where
  "sum_numbers xs = foldl jadd (Fin 0) xs"

definition spec_valuation :: "balance list \<Rightarrow> prices \<Rightarrow> number" where
  "spec_valuation bs prices =
     sum_numbers (map (spec_contribution prices)
                      (filter (\<lambda>b. jgt (total_amount b) (Fin 0)) bs))"

subsection \<open>Readings of the specification compared with the code\<close>

text \<open>An amount that \<open>parseFloat\<close> does not read as a number.\<close>

definition malformed :: "balance \<Rightarrow> bool" where
  "malformed b = (parseFloat (free b) = NaN \<or> parseFloat (locked b) = NaN)"

fun is_fin :: "number \<Rightarrow> bool" where
  "is_fin (Fin a) = True"
| "is_fin x = False"

text \<open>A finite number smaller than \<open>m\<close> in absolute value.\<close>

fun magnitude_below :: "rat \<Rightarrow> number \<Rightarrow> bool" where
  "magnitude_below m (Fin a) = (\<bar>a\<bar> < m)"
| "magnitude_below m x = False"

text \<open>A number that is not \<open>NaN\<close> and not negative.\<close>

fun nonneg :: "number \<Rightarrow> bool" where
  "nonneg (Fin a) = (0 \<le> a)"
| "nonneg PInf = True"
| "nonneg x = False"

text \<open>A price string that reads as a finite number, not negative.\<close>

definition price_ok :: "string \<Rightarrow> bool" where
  "price_ok p = (is_fin (parseFloat p) \<and> nonneg (parseFloat p))"

text \<open>
  The in-orders amount as the data model describes it: the valuation run again on the
  balances with every \<open>free\<close> zeroed, rounded to two digits.
\<close>

definition spec_inOrders :: "accountData \<Rightarrow> prices \<Rightarrow> number" where
  "spec_inOrders acct prices =
     round2 (calculateTotalBalance
               (map (\<lambda>b. b\<lparr>free := ''0''\<rparr>) (nonZeroBalances (balances acct))) prices)"

text \<open>
  The BTC equivalent as the specification describes it: present when a nonzero price is
  known, and then the quotient cut off (not rounded) after eight fractional digits.
\<close>

definition truncated :: "nat \<Rightarrow> rat \<Rightarrow> string" where
  "truncated f x = (if x < 0 then ''-'' else []) @ fixed_point f (nat \<lfloor>\<bar>x\<bar> * 10 ^ f\<rfloor>)"

definition spec_btcEquivalent :: "number \<Rightarrow> prices \<Rightarrow> string option" where
  "spec_btcEquivalent totalBalance prices =
     (case prices ''BTCUSDT'' of
        None \<Rightarrow> None
      | Some p \<Rightarrow>
          (case jdiv totalBalance (parseFloat p) of
             Fin x \<Rightarrow> if parseFloat p = Fin 0 then None else Some (truncated 8 x)
           | y \<Rightarrow> None))"

subsection \<open>Concrete accounts and price tables\<close>

definition account_of :: "balance list \<Rightarrow> accountData" where
  "account_of bs =
     \<lparr> balances = bs, updateTime = 0, permissions = [''SPOT''],
       canTrade = True, canWithdraw = True, canDeposit = True \<rparr>"

text \<open>The end-to-end scenario: 0.5 BTC free, 0.1 BTC locked, 100 USDT, BTC at 30000.\<close>

definition scenario_balances :: "balance list" where
  "scenario_balances =
     [\<lparr>asset = ''BTC'', free = ''0.5'', locked = ''0.1''\<rparr>,
      \<lparr>asset = ''USDT'', free = ''100'', locked = ''0''\<rparr>]"

definition scenario_prices :: prices where
  "scenario_prices = map_of [(''BTCUSDT'', ''30000'')]"

text \<open>The scenario's price table with an empty entry for XYZ.\<close>

definition blank_prices :: prices where
  "blank_prices = map_of [(''BTCUSDT'', ''30000''), (''XYZUSDT'', [])]"

text \<open>An asset without a price: 10 XYZ and an empty price table.\<close>

definition xyz_balances :: "balance list" where
  "xyz_balances = [\<lparr>asset = ''XYZ'', free = ''10'', locked = ''0''\<rparr>]"

text \<open>Two USDT, with BTC priced at 3 USDT and with BTC priced at zero.\<close>

definition thirds_balances :: "balance list" where
  "thirds_balances = [\<lparr>asset = ''USDT'', free = ''2'', locked = ''0''\<rparr>]"

definition thirds_prices :: prices where
  "thirds_prices = map_of [(''BTCUSDT'', ''3'')]"

definition zero_prices :: prices where
  "zero_prices = map_of [(''BTCUSDT'', ''0.00000000'')]"

text \<open>0.89 USDT free and 0.905 USDT locked.\<close>

definition cents_balances :: "balance list" where
  "cents_balances = [\<lparr>asset = ''USDT'', free = ''0.89'', locked = ''0.905''\<rparr>]"

text \<open>A well-formed entry whose price is not a number, and an entry with a garbled amount.\<close>

definition mixed_balances :: "balance list" where
  "mixed_balances =
     [\<lparr>asset = ''XYZ'', free = ''1'', locked = ''0''\<rparr>,
      \<lparr>asset = ''USDT'', free = ''abc'', locked = ''7''\<rparr>]"

definition garbled_prices :: prices where
  "garbled_prices = map_of [(''XYZUSDT'', ''abc'')]"

definition xyz_prices :: prices where
  "xyz_prices = map_of [(''XYZUSDT'', ''2.5'')]"

text \<open>The time stamp put into the concrete responses.\<close>

definition some_time :: string where
  "some_time = ''2024-01-01T00:00:00.000Z''"

section \<open>Request signing\<close>

subsection \<open>SHA-256 and HMAC, as \<open>crypto.createHmac('sha256', key)\<close> computes them\<close>

text \<open>
  A 32-bit word is a natural number below \<open>2^32\<close>, a byte one below 256; additions wrap
  around by \<open>mod 2^32\<close>, rotations and shifts are written with \<open>div\<close> and \<open>mod\<close>.
\<close>

definition add32 :: "nat \<Rightarrow> nat \<Rightarrow> nat" where
  "add32 x y = (x + y) mod 4294967296"

definition rotr :: "nat \<Rightarrow> nat \<Rightarrow> nat" where
  "rotr n x = x div 2 ^ n + (x mod 2 ^ n) * 2 ^ (32 - n)"

definition shr :: "nat \<Rightarrow> nat \<Rightarrow> nat" where
  "shr n x = x div 2 ^ n"

definition not32 :: "nat \<Rightarrow> nat" where
  "not32 x = 4294967295 - x"

definition sha_choose :: "nat \<Rightarrow> nat \<Rightarrow> nat \<Rightarrow> nat" where
  "sha_choose e f g = (e AND f) XOR (not32 e AND g)"

definition sha_majority :: "nat \<Rightarrow> nat \<Rightarrow> nat \<Rightarrow> nat" where
  "sha_majority a b c = (a AND b) XOR (a AND c) XOR (b AND c)"

definition big_sigma0 :: "nat \<Rightarrow> nat" where
  "big_sigma0 a = rotr 2 a XOR rotr 13 a XOR rotr 22 a"

definition big_sigma1 :: "nat \<Rightarrow> nat" where
  "big_sigma1 e = rotr 6 e XOR rotr 11 e XOR rotr 25 e"

definition small_sigma0 :: "nat \<Rightarrow> nat" where
  "small_sigma0 w = rotr 7 w XOR rotr 18 w XOR shr 3 w"

definition small_sigma1 :: "nat \<Rightarrow> nat" where
  "small_sigma1 w = rotr 17 w XOR rotr 19 w XOR shr 10 w"

text \<open>The sixty-four round constants and the initial hash value.\<close>

definition K256 :: "nat list" where
  "K256 =
     [
      1116352408, 1899447441, 3049323471, 3921009573, 961987163, 1508970993,
      2453635748, 2870763221, 3624381080, 310598401, 607225278, 1426881987,
      1925078388, 2162078206, 2614888103, 3248222580, 3835390401, 4022224774,
      264347078, 604807628, 770255983, 1249150122, 1555081692, 1996064986,
      2554220882, 2821834349, 2952996808, 3210313671, 3336571891, 3584528711,
      113926993, 338241895, 666307205, 773529912, 1294757372, 1396182291,
      1695183700, 1986661051, 2177026350, 2456956037, 2730485921, 2820302411,
      3259730800, 3345764771, 3516065817, 3600352804, 4094571909, 275423344,
      430227734, 506948616, 659060556, 883997877, 958139571, 1322822218,
      1537002063, 1747873779, 1955562222, 2024104815, 2227730452, 2361852424,
      2428436474, 2756734187, 3204031479, 3329325298]"

definition H256 :: "nat list" where
  "H256 =
     [
      1779033703, 3144134277, 1013904242, 2773480762,
      1359893119, 2600822924, 528734635, 1541459225]"

text \<open>One round on the eight working variables, for a round constant and a schedule word.\<close>

fun temp1 :: "nat \<Rightarrow> nat \<Rightarrow> nat list \<Rightarrow> nat" where
  "temp1 k w [a, b, c, d, e, f, g, h] =
     add32 (add32 (add32 (add32 h (big_sigma1 e)) (sha_choose e f g)) k) w"
| "temp1 k w s = 0"

fun temp2 :: "nat list \<Rightarrow> nat" where
  "temp2 [a, b, c, d, e, f, g, h] = add32 (big_sigma0 a) (sha_majority a b c)"
| "temp2 s = 0"

fun shift_in :: "nat \<Rightarrow> nat \<Rightarrow> nat list \<Rightarrow> nat list" where
  "shift_in t1 t2 [a, b, c, d, e, f, g, h] = [add32 t1 t2, a, b, c, add32 d t1, e, f, g]"
| "shift_in t1 t2 s = s"

definition sha_round :: "nat \<Rightarrow> nat \<Rightarrow> nat list \<Rightarrow> nat list" where
  "sha_round k w s = shift_in (temp1 k w s) (temp2 s) s"

text \<open>
  The message schedule is kept as a window of sixteen words: its head is the word of the
  current round, and each round appends the word sixteen places further on.
\<close>

definition next_word :: "nat list \<Rightarrow> nat" where
  "next_word w = add32 (add32 (add32 (small_sigma1 (w ! 14)) (w ! 9)) (small_sigma0 (w ! 1))) (w ! 0)"

fun rounds :: "nat list \<Rightarrow> nat list \<Rightarrow> nat list \<Rightarrow> nat list" where
  "rounds [] w s = s"
| "rounds (k # ks) w s = rounds ks (tl w @ [next_word w]) (sha_round k (hd w) s)"

definition compress :: "nat list \<Rightarrow> nat list \<Rightarrow> nat list" where
  "compress h block = map2 add32 h (rounds K256 block h)"

text \<open>Padding: a one bit, zeros, and the length in bits as eight bytes.\<close>

definition length_bytes :: "nat \<Rightarrow> nat list" where
  "length_bytes n = map (\<lambda>i. (n div 256 ^ i) mod 256) [7, 6, 5, 4, 3, 2, 1, 0]"

definition pad :: "nat list \<Rightarrow> nat list" where
  "pad m = m @ [128] @ replicate ((119 - length m mod 64) mod 64) 0 @ length_bytes (8 * length m)"

fun words_of :: "nat list \<Rightarrow> nat list" where
  "words_of (a # b # c # d # bs) = (a * 16777216 + b * 65536 + c * 256 + d) # words_of bs"
| "words_of bs = []"

fun hash_blocks :: "nat list \<Rightarrow> nat list \<Rightarrow> nat list" where
  "hash_blocks h bs =
     (if length bs < 64 then h
      else hash_blocks (compress h (words_of (take 64 bs))) (drop 64 bs))"

declare hash_blocks.simps [simp del]

definition word_bytes :: "nat \<Rightarrow> nat list" where
  "word_bytes w = [w div 16777216, (w div 65536) mod 256, (w div 256) mod 256, w mod 256]"

definition sha256 :: "nat list \<Rightarrow> nat list" where
  "sha256 m = concat (map word_bytes (hash_blocks H256 (pad m)))"

text \<open>HMAC with a block size of 64 bytes: a longer key is hashed first.\<close>

definition hmac_sha256 :: "nat list \<Rightarrow> nat list \<Rightarrow> nat list" where
  "hmac_sha256 key m =
     (let k0 = (if 64 < length key then sha256 key else key);
          k = k0 @ replicate (64 - length k0) 0
      in sha256 (map (\<lambda>b. b XOR 92) k @ sha256 (map (\<lambda>b. b XOR 54) k @ m)))"

text \<open>\<open>digest('hex')\<close>: two lower-case hexadecimal digits for a byte.\<close>

definition hex_digit :: "nat \<Rightarrow> char" where
  "hex_digit n = ''0123456789abcdef'' ! n"

definition hex :: "nat list \<Rightarrow> string" where
  "hex bs = concat (map (\<lambda>b. [hex_digit (b div 16), hex_digit (b mod 16)]) bs)"

definition bytes_of :: "string \<Rightarrow> nat list" where
  "bytes_of s = map of_char s"

definition hmac_sha256_hex :: "string \<Rightarrow> string \<Rightarrow> string" where
  "hmac_sha256_hex key m = hex (hmac_sha256 (bytes_of key) (bytes_of m))"

subsection \<open>Parameters, the query string and the environment\<close>

text \<open>
  A parameter value is a string or a number. A parameter object is the list of its
  properties in the order JavaScript enumerates them; no key occurs twice.
\<close>

datatype jsvalue = JString string | JNumber nat

type_synonym params = "(string \<times> jsvalue) list"

text \<open>
  \<open>{...obj, key: v}\<close>: a key the object has keeps its place and takes the new value, a new
  key goes to the end.
\<close>

fun set_prop :: "params \<Rightarrow> string \<Rightarrow> jsvalue \<Rightarrow> params" where
  "set_prop [] k v = [(k, v)]"
| "set_prop ((k', v') # ps) k v =
     (if k' = k then (k, v) # ps else (k', v') # set_prop ps k v)"

fun to_string :: "jsvalue \<Rightarrow> string" where
  "to_string (JString s) = s"
| "to_string (JNumber n) = digits_of n"

text \<open>
  \<open>URLSearchParams.toString()\<close>: letters, digits and \<open>*-._\<close> stand for themselves, a
  space becomes \<open>+\<close>, every other byte is a percent sign and two upper-case hexadecimal
  digits; a name and its value are joined by \<open>=\<close>, the pairs by \<open>&\<close>.
\<close>

definition url_safe :: "char \<Rightarrow> bool" where
  "url_safe c =
     (c \<in> set ''abcdefghijklmnopqrstuvwxyzABCDEFGHIJKLMNOPQRSTUVWXYZ0123456789*-._'')"

definition hex_upper :: "nat \<Rightarrow> char" where
  "hex_upper n = ''0123456789ABCDEF'' ! n"

definition urlencode_char :: "char \<Rightarrow> string" where
  "urlencode_char c =
     (if url_safe c then [c]
      else if c = CHR '' '' then ''+''
      else [CHR ''%'', hex_upper (of_char c div 16), hex_upper (of_char c mod 16)])"

definition urlencode :: "string \<Rightarrow> string" where
  "urlencode s = concat (map urlencode_char s)"

fun join_with :: "string \<Rightarrow> string list \<Rightarrow> string" where
  "join_with sep [] = []"
| "join_with sep [x] = x"
| "join_with sep (x # y # zs) = x @ sep @ join_with sep (y # zs)"

definition query_string :: "params \<Rightarrow> string" where
  "query_string ps =
     join_with ''&'' (map (\<lambda>(k, v). urlencode k @ ''='' @ urlencode (to_string v)) ps)"

text \<open>
  \<open>process.env\<close>: the environment variables, name and value. \<open>API_KEY\<close> and \<open>SECRET_KEY\<close>
  are read from it when the module is loaded; a variable that is not set reads as
  \<open>undefined\<close>, here \<open>None\<close>.
\<close>

type_synonym env = "(string \<times> string) list"

definition API_KEY :: "env \<Rightarrow> string option" where
  "API_KEY e = map_of e ''BINANCE_API_KEY''"

definition SECRET_KEY :: "env \<Rightarrow> string option" where
  "SECRET_KEY e = map_of e ''BINANCE_SECRET_KEY''"

text \<open>The truth value of a variable that may be \<open>undefined\<close>: \<open>!!v\<close>.\<close>

definition configured :: "string option \<Rightarrow> bool" where
  "configured v = (case v of None \<Rightarrow> False | Some s \<Rightarrow> truthy s)"

text \<open>A thrown error: its name and its message.\<close>

datatype exn = Exn string string

fun exn_name :: "exn \<Rightarrow> string" where
  "exn_name (Exn n m) = n"

subsection \<open>The signing functions\<close>

text \<open>
  \<open>crypto.createHmac('sha256', key).update(m).digest('hex')\<close>. Node throws a \<open>TypeError\<close>
  when the key is \<open>undefined\<close>; an empty string is a key like any other.
\<close>

definition createHmac_digest :: "string option \<Rightarrow> string \<Rightarrow> exn + string" where
  "createHmac_digest key m =
     (case key of
        None \<Rightarrow> Inl (Exn ''TypeError'' ''ERR_INVALID_ARG_TYPE: the key argument is undefined'')
      | Some k \<Rightarrow> Inr (hmac_sha256_hex k m))"

definition generateSignature :: "env \<Rightarrow> string \<Rightarrow> exn + string" where
  "generateSignature e queryString =
     (if \<not> configured (SECRET_KEY e) then Inl (Exn ''Error'' ''SECRET_KEY is not configured'')
      else createHmac_digest (SECRET_KEY e) queryString)"

text \<open>
  What a signing function has done when it returns or throws, in order: read the clock,
  serialized the query string, computed the signature.
\<close>

datatype step = ClockRead | QuerySerialized string | SignatureComputed

text \<open>
  \<open>createSignedParams\<close>; \<open>now\<close> is the value of \<open>Date.now()\<close>. The result is the list of
  the steps done and either the error thrown or the object returned.
\<close>

definition createSignedParams :: "env \<Rightarrow> nat \<Rightarrow> params \<Rightarrow> step list \<times> (exn + params)" where
  "createSignedParams e now ps =
     (let timestamp = JNumber now;
          queryString = query_string (set_prop ps ''timestamp'' timestamp)
      in case generateSignature e queryString of
           Inl err \<Rightarrow> ([ClockRead, QuerySerialized queryString], Inl err)
         | Inr signature \<Rightarrow>
             ([ClockRead, QuerySerialized queryString, SignatureComputed],
              Inr (set_prop (set_prop ps ''timestamp'' timestamp)
                            ''signature'' (JString signature))))"

text \<open>\<open>sign\<close>, of the earn-balance server: the same without the check of the secret.\<close>

definition sign :: "env \<Rightarrow> nat \<Rightarrow> params \<Rightarrow> step list \<times> (exn + params)" where
  "sign e now ps =
     (let timestamp = JNumber now;
          queryString = query_string (set_prop ps ''timestamp'' timestamp)
      in case createHmac_digest (SECRET_KEY e) queryString of
           Inl err \<Rightarrow> ([ClockRead, QuerySerialized queryString], Inl err)
         | Inr signature \<Rightarrow>
             ([ClockRead, QuerySerialized queryString, SignatureComputed],
              Inr (set_prop (set_prop ps ''timestamp'' timestamp)
                            ''signature'' (JString signature))))"


section \<open>The health check\<close>

record health_body =
  status :: string
  timestamp_iso :: string
  service :: string
  apiKeyConfigured :: bool
  secretKeyConfigured :: bool

text \<open>The additional fields of the second server's health check.\<close>

record health_debug = health_body +
  environment :: string
  apiKeyLength :: nat
  secretKeyLength :: nat
  apiKeyStart :: string
  allEnvVars :: "string list"

text \<open>
  Reading \<open>.length\<close> or calling \<open>.substring\<close> on \<open>undefined\<close> throws a \<open>TypeError\<close>.
\<close>

definition js_length :: "string option \<Rightarrow> exn + nat" where
  "js_length v =
     (case v of
        None \<Rightarrow> Inl (Exn ''TypeError'' ''Cannot read properties of undefined'')
      | Some s \<Rightarrow> Inr (length s))"

definition js_substring :: "string option \<Rightarrow> nat \<Rightarrow> nat \<Rightarrow> exn + string" where
  "js_substring v i j =
     (case v of
        None \<Rightarrow> Inl (Exn ''TypeError'' ''Cannot read properties of undefined'')
      | Some s \<Rightarrow> Inr (take (j - i) (drop i s)))"

fun str_includes :: "string \<Rightarrow> string \<Rightarrow> bool" where
  "str_includes [] p = (p = [])"
| "str_includes (c # cs) p = (take (length p) (c # cs) = p \<or> str_includes cs p)"

text \<open>
  The handlers of \<open>GET /api/health\<close>: the status code and the body given to \<open>res.json\<close>,
  or the error thrown. \<open>now_iso\<close> stands for \<open>new Date().toISOString()\<close>.
\<close>

definition health :: "env \<Rightarrow> string \<Rightarrow> exn + nat \<times> health_body" where
  "health e now_iso =
     Inr (200, \<lparr> status = ''ok'', timestamp_iso = now_iso,
                 service = ''Binance Wallet Balance API'',
                 apiKeyConfigured = configured (API_KEY e),
                 secretKeyConfigured = configured (SECRET_KEY e) \<rparr>)"

definition health_with_debug :: "env \<Rightarrow> string \<Rightarrow> exn + nat \<times> health_debug" where
  "health_with_debug e now_iso =
     (let apiKeyExists = configured (map_of e ''BINANCE_API_KEY'');
          secretKeyExists = configured (map_of e ''BINANCE_SECRET_KEY'')
      in case (if configured (map_of e ''BINANCE_API_KEY'')
               then js_length (map_of e ''BINANCE_API_KEY'') else Inr 0) of
           Inl err \<Rightarrow> Inl err
         | Inr keyLength \<Rightarrow>
        (case (if configured (map_of e ''BINANCE_SECRET_KEY'')
               then js_length (map_of e ''BINANCE_SECRET_KEY'') else Inr 0) of
           Inl err \<Rightarrow> Inl err
         | Inr secretLength \<Rightarrow>
        (case (if configured (map_of e ''BINANCE_API_KEY'')
               then map_sum id (\<lambda>s. s @ ''...'') (js_substring (map_of e ''BINANCE_API_KEY'') 0 8)
               else Inr ''undefined'') of
           Inl err \<Rightarrow> Inl err
         | Inr keyStart \<Rightarrow>
             Inr (200,
               \<lparr> status = ''ok'', timestamp_iso = now_iso,
                 service = ''Binance Wallet Balance API'',
                 apiKeyConfigured = apiKeyExists,
                 secretKeyConfigured = secretKeyExists,
                 environment =
                   (case map_of e ''NODE_ENV'' of
                      None \<Rightarrow> ''development''
                    | Some v \<Rightarrow> if truthy v then v else ''development''),
                 apiKeyLength = keyLength,
                 secretKeyLength = secretLength,
                 apiKeyStart = keyStart,
                 allEnvVars = filter (\<lambda>key. str_includes key ''BINANCE'') (map fst e) \<rparr>))))"

subsection \<open>Concrete environments and parameters\<close>

definition env_without_keys :: env where
  "env_without_keys = [(''PORT'', ''3000'')]"

definition env_empty_secret :: env where
  "env_empty_secret = [(''BINANCE_API_KEY'', ''key''), (''BINANCE_SECRET_KEY'', [])]"

definition env_jefe :: env where
  "env_jefe = [(''BINANCE_API_KEY'', ''key''), (''BINANCE_SECRET_KEY'', ''Jefe'')]"

definition env_jefe_other :: env where
  "env_jefe_other = [(''BINANCE_SECRET_KEY'', ''Jefe''), (''NODE_ENV'', ''production'')]"

definition btc_params :: params where
  "btc_params = [(''symbol'', JString ''BTCUSDT'')]"

definition eth_params :: params where
  "eth_params = [(''symbol'', JString ''ETHUSDT'')]"

definition some_now :: nat where
  "some_now = 1700000000000"

section \<open>Evaluation on concrete inputs\<close>

lemma replicate_numeral: "replicate (numeral k) x = x # replicate (pred_numeral k) x"
  by (simp add: numeral_eq_Suc)

lemma digits_of_numeral:
  "digits_of (numeral k) =
     (if (numeral k :: nat) < 10 then [digit_char (numeral k)]
      else digits_of (numeral k div 10) @ [digit_char (numeral k mod 10)])"
  by (rule digits_of.simps)

lemma digits_of_small:
  "digits_of 0 = ''0''" "digits_of 1 = ''1''" "digits_of (Suc 0) = ''1''"
  by (simp_all add: digits_of.simps digit_char_def)

lemma floor_numeral_divide:
  "\<lfloor>numeral a / (numeral b :: rat)\<rfloor> = numeral a div numeral b"
  by (metis floor_divide_of_int_eq of_int_numeral)

lemma floor_minus_numeral_divide:
  "\<lfloor>- (numeral a / (numeral b :: rat))\<rfloor> = - numeral a div numeral b"
  by (metis floor_divide_of_int_eq of_int_numeral of_int_minus minus_divide_left)

lemma floor_one_divide_numeral:
  "\<lfloor>1 / (numeral b :: rat)\<rfloor> = 1 div numeral b"
  by (metis floor_divide_of_int_eq of_int_numeral of_int_1)

lemma floor_minus_one_divide_numeral:
  "\<lfloor>- (1 / (numeral b :: rat))\<rfloor> = - 1 div numeral b"
  by (metis floor_divide_of_int_eq of_int_numeral of_int_1 of_int_minus minus_divide_left)

lemma log2floor_numeral:
  "log2floor (numeral k) =
     (if (numeral k :: nat) < 2 then 0 else 1 + log2floor (numeral k div 2))"
  by (rule log2floor.simps)

lemma log2floor_small: "log2floor 0 = 0" "log2floor 1 = 0" "log2floor (Suc 0) = 0"
  by (simp_all add: log2floor.simps)

lemmas floor_eval =
  floor_numeral_divide floor_minus_numeral_divide
  floor_one_divide_numeral floor_minus_one_divide_numeral

lemmas read_eval =
  read_decimal_def split_sign_def white_space_def space_length_def is_digit_def digits_val_def digit_val_def
  exponent_part_def scale10_def Let_def

lemmas round64_eval =
  round64_def exponent_of_def pow2_def round_half_even_def log2floor_numeral log2floor_small
  floor_eval Let_def

lemmas print_eval =
  fixed_point_def digit_char_def digits_of_numeral digits_of_small replicate_numeral
  floor_eval Let_def

text \<open>The amounts and prices of the concrete inputs, as \<open>parseFloat\<close> reads them.\<close>

lemma parse_integers:
  "parseFloat ''0'' = Fin 0" "parseFloat ''1'' = Fin 1" "parseFloat ''2'' = Fin 2"
  "parseFloat ''3'' = Fin 3" "parseFloat ''5'' = Fin 5" "parseFloat ''7'' = Fin 7"
  "parseFloat ''10'' = Fin 10" "parseFloat ''100'' = Fin 100"
  "parseFloat ''30000'' = Fin 30000" "parseFloat ''0.00000000'' = Fin 0"
  by (simp_all add: parseFloat_def read_eval round64_eval)

lemma parse_fractions:
  "parseFloat ''0.5'' = Fin (1 / 2)"
  "parseFloat ''2.5'' = Fin (5 / 2)"
  "parseFloat ''0.1'' = Fin (3602879701896397 / 36028797018963968)"
  "parseFloat ''0.89'' = Fin (8016407336719483 / 9007199254740992)"
  "parseFloat ''0.905'' = Fin (4075757662770299 / 4503599627370496)"
  by (simp_all add: parseFloat_def read_eval round64_eval)

lemma parse_garbled: "parseFloat ''abc'' = NaN" "parseFloat [] = NaN"
  by (simp_all add: parseFloat_def read_eval)

text \<open>
  White space before the number is skipped: a no-break space, then a byte order mark, a
  space and a line separator; a byte that starts no white space character is not.
\<close>

lemma parse_white_space:
  "parseFloat [CHR 0xC2, CHR 0xA0, CHR ''5''] = Fin 5"
  "parseFloat [CHR 0xEF, CHR 0xBB, CHR 0xBF, CHR 0x20, CHR 0xE2, CHR 0x80, CHR 0xA8, CHR ''5'']
     = Fin 5"
  "parseFloat [CHR 0x09, CHR ''2'', CHR ''.'', CHR ''5''] = Fin (5 / 2)"
  "parseFloat [CHR 0xC2, CHR ''5''] = NaN"
  by (simp_all add: parseFloat_def read_eval round64_eval)

lemmas parse_eval = parse_integers parse_fractions parse_garbled

section \<open>Properties of the arithmetic\<close>

lemma pow2_pos: "0 < pow2 e"
  by (simp add: pow2_def)

lemma round_half_even_nonneg: "0 \<le> x \<Longrightarrow> 0 \<le> round_half_even x"
  by (auto simp: round_half_even_def Let_def)

lemma round_half_even_nonpos: "x \<le> 0 \<Longrightarrow> round_half_even x \<le> 0"
proof -
  assume x: "x \<le> 0"
  show ?thesis
  proof (cases "x = 0")
    case True
    then show ?thesis by (simp add: round_half_even_def)
  next
    case False
    with x have "x < 0" by simp
    then have "\<lfloor>x\<rfloor> < 0" by simp
    then have "\<lfloor>x\<rfloor> + 1 \<le> 0" by linarith
    then show ?thesis by (auto simp: round_half_even_def Let_def)
  qed
qed

lemma round64_nonneg: "0 \<le> r \<Longrightarrow> nonneg (round64 r)"
proof -
  assume r: "0 \<le> r"
  have "0 \<le> of_int (round_half_even (r / q)) * q" if "0 < q" for q :: rat
    using that r by (intro mult_nonneg_nonneg) (auto intro: round_half_even_nonneg)
  then show ?thesis
    using r by (auto simp: round64_def Let_def pow2_pos)
qed

lemma round64_nonpos: "r \<le> 0 \<Longrightarrow> \<not> jgt (round64 r) (Fin 0)"
proof -
  assume r: "r \<le> 0"
  have "of_int (round_half_even (r / q)) * q \<le> 0" if "0 < q" for q :: rat
  proof -
    have "r / q \<le> 0" using r that by (simp add: divide_le_0_iff)
    then have "round_half_even (r / q) \<le> 0" by (rule round_half_even_nonpos)
    then have "(of_int (round_half_even (r / q)) :: rat) \<le> 0" by simp
    then show ?thesis using that by (simp add: mult_le_0_iff)
  qed
  then show ?thesis
    using r by (auto simp: round64_def Let_def pow2_pos not_less)
qed

lemma jadd_zero_right: "jadd x (Fin 0) = x"
  by (cases x) simp_all

lemma jadd_NaN_right: "jadd x NaN = NaN"
  by (cases x) simp_all

lemma jgt_jadd_pos: "jgt (jadd x y) (Fin 0) \<Longrightarrow> jgt x (Fin 0) \<or> jgt y (Fin 0)"
proof (cases x; cases y)
  fix a b
  assume xy: "x = Fin a" "y = Fin b" and pos: "jgt (jadd x y) (Fin 0)"
  show "jgt x (Fin 0) \<or> jgt y (Fin 0)"
  proof (rule ccontr)
    assume "\<not> (jgt x (Fin 0) \<or> jgt y (Fin 0))"
    with xy have ab: "a \<le> 0" "b \<le> 0" by simp_all
    then have "a + b \<le> 0" by simp
    then have "\<not> jgt (round64 (a + b)) (Fin 0)" by (rule round64_nonpos)
    with pos xy ab show False by (auto split: if_splits)
  qed
qed auto

lemma nonneg_not_NaN: "nonneg x \<Longrightarrow> x \<noteq> NaN"
  by (cases x) simp_all

lemma jadd_nonneg: "nonneg x \<Longrightarrow> nonneg y \<Longrightarrow> nonneg (jadd x y)"
  by (cases x; cases y) (auto intro: round64_nonneg)

lemma jmul_nonneg_fin: "0 \<le> a \<Longrightarrow> 0 \<le> b \<Longrightarrow> nonneg (jmul (Fin a) (Fin b))"
  by (simp add: round64_nonneg)

lemma is_fin_iff: "is_fin x \<longleftrightarrow> (\<exists>a. x = Fin a)"
  by (cases x) simp_all

lemma round64_zero: "round64 0 = Fin 0"
  by (simp add: round64_def)

lemma jsub_self: "is_fin x \<Longrightarrow> jsub x x = Fin 0"
  by (cases x) (auto simp: jsub_def round64_zero)

lemma round2_zero: "round2 (Fin 0) = Fin 0"
  by (simp add: round2_def round64_zero floor_eval)

subsection \<open>The error of one rounding\<close>

lemma pow2_powi: "pow2 e = 2 powi e"
  by (simp add: pow2_def power_int_def power_inverse inverse_eq_divide flip: power_one_over)

lemma log2floor_bounds:
  "0 < n \<Longrightarrow> 2 ^ log2floor n \<le> n \<and> n < 2 * 2 ^ log2floor n"
proof (induction n rule: log2floor.induct)
  case (1 n)
  show ?case
  proof (cases "n < 2")
    case True
    with "1.prems" have "n = 1" by simp
    then show ?thesis by (simp add: log2floor.simps)
  next
    case False
    then have half: "0 < n div 2" by simp
    from "1.IH" [OF False half]
    have ih: "2 ^ log2floor (n div 2) \<le> n div 2" "n div 2 < 2 * 2 ^ log2floor (n div 2)"
      by simp_all
    have eq: "log2floor n = 1 + log2floor (n div 2)"
      using False by (subst log2floor.simps) simp
    show ?thesis
      unfolding eq using ih by (simp; linarith)
  qed
qed

lemma exponent_of_bounds:
  assumes "0 < r"
  shows "2 powi exponent_of r \<le> r \<and> r < 2 powi (exponent_of r + 1)"
proof (cases "1 \<le> r")
  case True
  define n where "n = nat \<lfloor>r\<rfloor>"
  have n: "0 < n" "rat_of_nat n \<le> r" "r < rat_of_nat n + 1"
    using True by (simp_all add: n_def; linarith)+
  from log2floor_bounds [OF n(1)]
  have "2 ^ log2floor n \<le> n" "n + 1 \<le> 2 * 2 ^ log2floor n" by simp_all
  then have "rat_of_nat (2 ^ log2floor n) \<le> rat_of_nat n"
    "rat_of_nat (n + 1) \<le> rat_of_nat (2 * 2 ^ log2floor n)"
    by (simp_all only: of_nat_le_iff)
  then have "(2 :: rat) ^ log2floor n \<le> rat_of_nat n" "rat_of_nat n + 1 \<le> 2 * 2 ^ log2floor n"
    by (simp_all only: of_nat_power of_nat_numeral of_nat_mult of_nat_add of_nat_1)
  with n have "(2 :: rat) ^ log2floor n \<le> r" "r < 2 * 2 ^ log2floor n" by linarith+
  moreover have "exponent_of r = int (log2floor n)"
    using True by (simp add: exponent_of_def n_def)
  ultimately show ?thesis
    by (simp add: power_int_add)
next
  case False
  define m where "m = nat \<lfloor>1 / r\<rfloor>"
  define k where "k = log2floor m"
  have "1 < 1 / r" using assms False by simp
  then have m: "0 < m" "rat_of_nat m \<le> 1 / r" "1 / r < rat_of_nat m + 1"
    by (simp_all add: m_def; linarith)+
  from log2floor_bounds [OF m(1)]
  have "2 ^ k \<le> m" "m + 1 \<le> 2 * 2 ^ k" by (simp_all add: k_def)
  then have "rat_of_nat (2 ^ k) \<le> rat_of_nat m"
    "rat_of_nat (m + 1) \<le> rat_of_nat (2 * 2 ^ k)"
    by (simp_all only: of_nat_le_iff)
  then have "(2 :: rat) ^ k \<le> rat_of_nat m" "rat_of_nat m + 1 \<le> 2 * 2 ^ k"
    by (simp_all only: of_nat_power of_nat_numeral of_nat_mult of_nat_add of_nat_1)
  with m have "(2 :: rat) ^ k \<le> 1 / r" "1 / r < 2 * 2 ^ k" by linarith+
  then have upper: "r * 2 ^ k \<le> 1" and lower: "1 < r * (2 * 2 ^ k)"
    using assms by (simp_all add: field_simps)
  have pk: "(2 :: rat) powi (- int k) = 1 / 2 ^ k"
    by (simp add: power_int_minus inverse_eq_divide)
  have pk1: "(2 :: rat) powi (- int k - 1) = 1 / (2 * 2 ^ k)"
    by (simp add: power_int_diff pk)
  have pk2: "(2 :: rat) powi (1 - int k) = 2 / 2 ^ k"
    using power_int_add [of "2 :: rat" 1 "- int k"] by (simp add: pk)
  show ?thesis
  proof (cases "r * 2 ^ k = 1")
    case True
    then have "exponent_of r = - int k"
      using False by (simp add: exponent_of_def m_def k_def Let_def)
    moreover from True have "r = 1 / 2 ^ k" by (simp add: field_simps)
    ultimately show ?thesis using assms by (simp add: pk pk2 divide_strict_right_mono)
  next
    case ne: False
    then have e: "exponent_of r = - int k - 1"
      using False by (simp add: exponent_of_def m_def k_def Let_def)
    from ne upper have "r * 2 ^ k < 1" by simp
    then have "r < 1 / 2 ^ k" by (simp add: field_simps)
    moreover from lower have "1 / (2 * 2 ^ k) < r" by (simp add: field_simps)
    ultimately show ?thesis
      unfolding e by (simp add: pk pk1)
  qed
qed

lemma round_half_even_error: "\<bar>of_int (round_half_even x) - x\<bar> \<le> (1 / 2 :: rat)"
proof -
  have "of_int \<lfloor>x\<rfloor> \<le> x" "x < of_int \<lfloor>x\<rfloor> + 1" by linarith+
  then show ?thesis
    by (auto simp: round_half_even_def Let_def)
qed

text \<open>
  A value below \<open>2^k\<close> in absolute value, for \<open>k\<close> up to 1023, rounds to a finite number
  at most \<open>2^(k - 54)\<close> away from it.
\<close>

lemma round64_error:
  assumes "\<bar>r\<bar> < 2 ^ k" and "k \<le> 1023"
  shows "\<exists>v. round64 r = Fin v \<and> \<bar>v - r\<bar> \<le> 2 ^ k / 2 ^ 54"
proof (cases "r = 0")
  case True
  then show ?thesis by (simp add: round64_def)
next
  case False
  define e where "e = max (exponent_of \<bar>r\<bar>) (- 1022)"
  define q where "q = pow2 (e - 52)"
  define v where "v = of_int (round_half_even (r / q)) * q"
  have q: "0 < q" by (simp add: q_def pow2_pos)
  have "2 powi exponent_of \<bar>r\<bar> \<le> \<bar>r\<bar>"
    using exponent_of_bounds [of "\<bar>r\<bar>"] False by simp
  with assms(1) have "(2 :: rat) powi exponent_of \<bar>r\<bar> < 2 powi int k" by simp
  then have "exponent_of \<bar>r\<bar> < int k"
    by (rule power_int_le_imp_less_exp [rotated]) simp_all
  then have "e - 52 \<le> int k - 53" by (simp add: e_def)
  then have "q \<le> 2 powi (int k - 53)"
    unfolding q_def pow2_powi by (intro power_int_increasing) simp_all
  also have "\<dots> = 2 ^ k / 2 ^ 53"
    by (simp add: power_int_diff)
  finally have q_le: "q \<le> 2 ^ k / 2 ^ 53" .
  have "\<bar>v - r\<bar> = \<bar>of_int (round_half_even (r / q)) - r / q\<bar> * q"
  proof -
    have "v - r = (of_int (round_half_even (r / q)) - r / q) * q"
      using q by (simp add: v_def left_diff_distrib)
    then show ?thesis
      using q by (simp add: abs_mult)
  qed
  also have "\<dots> \<le> 1 / 2 * q"
    using q round_half_even_error [of "r / q"] by (intro mult_right_mono) simp_all
  also have "\<dots> \<le> 2 ^ k / 2 ^ 54"
    using q_le by simp
  finally have err: "\<bar>v - r\<bar> \<le> 2 ^ k / 2 ^ 54" .
  have "\<bar>v\<bar> \<le> \<bar>r\<bar> + \<bar>v - r\<bar>" by simp
  also have "\<dots> < 2 ^ k + 2 ^ k / 2 ^ 54" using assms(1) err by simp
  also have "\<dots> \<le> 2 * 2 ^ k" by (simp add: field_simps)
  also have "\<dots> \<le> 2 * (2 :: rat) ^ 1023"
  proof -
    have "(2 :: rat) ^ k \<le> 2 ^ 1023"
      using assms(2) by (rule power_increasing) simp
    then show ?thesis by linarith
  qed
  finally have "\<bar>v\<bar> < 2 ^ 1024" by simp
  then have "round64 r = Fin v"
    using False by (simp add: round64_def Let_def e_def q_def v_def not_le)
  with err show ?thesis by blast
qed

subsection \<open>The three reported amounts in whole cents\<close>

lemma times_hundred:
  assumes "\<bar>x\<bar> < 2 ^ k" and "k \<le> 1000"
  shows "\<exists>m. jmul (Fin x) (Fin 100) = Fin m \<and> \<bar>m - x * 100\<bar> \<le> 2 ^ k / 2 ^ 47"
proof -
  have "\<bar>x * 100\<bar> = \<bar>x\<bar> * 100" by (simp add: abs_mult)
  also have "\<dots> < 2 ^ k * 2 ^ 7" using assms(1) by simp
  finally have "\<bar>x * 100\<bar> < 2 ^ (k + 7)" by (simp add: power_add)
  moreover have "k + 7 \<le> 1023" using assms(2) by simp
  ultimately obtain m where "round64 (x * 100) = Fin m"
    and "\<bar>m - x * 100\<bar> \<le> 2 ^ (k + 7) / 2 ^ 54"
    using round64_error by blast
  then show ?thesis by (simp add: power_add)
qed

lemma difference_error:
  assumes "\<bar>t\<bar> < 2 ^ 40" and "\<bar>a\<bar> < 2 ^ 40"
  shows "\<exists>d. jsub (Fin t) (Fin a) = Fin d \<and> \<bar>d - (t - a)\<bar> \<le> 2 ^ 41 / 2 ^ 54"
proof (cases "a = 0 \<or> t = 0")
  case True
  then show ?thesis by (auto simp: jsub_def)
next
  case False
  have "\<bar>t + - a\<bar> < 2 ^ 41" using assms by simp
  then obtain d where "round64 (t + - a) = Fin d" and "\<bar>d - (t + - a)\<bar> \<le> 2 ^ 41 / 2 ^ 54"
    using round64_error [of "t + - a" 41] by auto
  with False show ?thesis by (simp add: jsub_def)
qed

lemma Math_round_error:
  "\<exists>c :: int. Math_round (Fin m) = Fin (of_int c) \<and> \<bar>of_int c - m\<bar> \<le> 1 / 2"
proof -
  have "of_int \<lfloor>m + 1 / 2\<rfloor> \<le> m + 1 / 2" "m + 1 / 2 < of_int \<lfloor>m + 1 / 2\<rfloor> + 1"
    by linarith+
  then have "\<bar>of_int \<lfloor>m + 1 / 2\<rfloor> - m\<bar> \<le> 1 / 2" by linarith
  then show ?thesis by auto
qed

lemma round2_cents:
  assumes "\<bar>x\<bar> < 2 ^ k" and "k \<le> 1000"
  shows "\<exists>c :: int. round2 (Fin x) = jdiv (Fin (of_int c)) (Fin 100) \<and>
           \<bar>of_int c - x * 100\<bar> \<le> 1 / 2 + 2 ^ k / 2 ^ 47"
proof -
  from times_hundred [OF assms] obtain m
    where m: "jmul (Fin x) (Fin 100) = Fin m" "\<bar>m - x * 100\<bar> \<le> 2 ^ k / 2 ^ 47" by blast
  from Math_round_error [of m] obtain c :: int
    where c: "Math_round (Fin m) = Fin (of_int c)" "\<bar>of_int c - m\<bar> \<le> 1 / 2" by blast
  have "round2 (Fin x) = jdiv (Fin (of_int c)) (Fin 100)"
    unfolding round2_def m(1) c(1) by (rule refl)
  moreover have "\<bar>of_int c - x * 100\<bar> \<le> 1 / 2 + 2 ^ k / 2 ^ 47"
    using m(2) c(2) by linarith
  ultimately show ?thesis by blast
qed

lemma whole_cents:
  assumes t: "\<bar>t\<bar> < 2 ^ 40" and a: "\<bar>a\<bar> < 2 ^ 40"
  shows "\<exists>ct ca cd :: int.
           round2 (Fin t) = jdiv (Fin (of_int ct)) (Fin 100) \<and>
           round2 (Fin a) = jdiv (Fin (of_int ca)) (Fin 100) \<and>
           round2 (jsub (Fin t) (Fin a)) = jdiv (Fin (of_int cd)) (Fin 100) \<and>
           \<bar>ct - (ca + cd)\<bar> \<le> 1"
proof -
  from round2_cents [OF t] obtain ct :: int
    where ct: "round2 (Fin t) = jdiv (Fin (of_int ct)) (Fin 100)"
      "\<bar>of_int ct - t * 100\<bar> \<le> 1 / 2 + 2 ^ 40 / 2 ^ 47" by auto
  from round2_cents [OF a] obtain ca :: int
    where ca: "round2 (Fin a) = jdiv (Fin (of_int ca)) (Fin 100)"
      "\<bar>of_int ca - a * 100\<bar> \<le> 1 / 2 + 2 ^ 40 / 2 ^ 47" by auto
  from difference_error [OF t a] obtain d
    where d: "jsub (Fin t) (Fin a) = Fin d" "\<bar>d - (t - a)\<bar> \<le> 2 ^ 41 / 2 ^ 54" by blast
  have n1: "(2 :: rat) ^ 41 / 2 ^ 54 \<le> 1" and n2: "(2 :: rat) ^ 40 + 2 ^ 40 + 1 \<le> 2 ^ 42"
    by simp_all
  have "\<bar>d\<bar> \<le> \<bar>d - (t - a)\<bar> + \<bar>t\<bar> + \<bar>a\<bar>" by linarith
  then have "\<bar>d\<bar> < 2 ^ 42" using d(2) t a n1 n2 by linarith
  from round2_cents [OF this] obtain cd :: int
    where cd: "round2 (Fin d) = jdiv (Fin (of_int cd)) (Fin 100)"
      "\<bar>of_int cd - d * 100\<bar> \<le> 1 / 2 + 2 ^ 42 / 2 ^ 47" by auto
  have n3: "(1 / 2 + 2 ^ 40 / 2 ^ 47) + (1 / 2 + 2 ^ 40 / 2 ^ 47) + (1 / 2 + 2 ^ 42 / 2 ^ 47)
              + 100 * (2 ^ 41 / 2 ^ 54) < (2 :: rat)"
    by simp
  define x y z w where "x = of_int ct - t * 100" and "y = of_int ca - a * 100"
    and "z = of_int cd - d * 100" and "w = d - (t - a)"
  have "rat_of_int ct - (of_int ca + of_int cd) = x - y - z - 100 * w"
    by (simp add: x_def y_def z_def w_def)
  moreover have "\<bar>x - y - z - 100 * w\<bar> \<le> \<bar>x\<bar> + \<bar>y\<bar> + \<bar>z\<bar> + 100 * \<bar>w\<bar>"
    by linarith
  ultimately have "\<bar>rat_of_int ct - (of_int ca + of_int cd)\<bar> < 2"
    using ct(2) ca(2) cd(2) d(2) n3 unfolding x_def y_def z_def w_def by linarith
  then have "rat_of_int \<bar>ct - (ca + cd)\<bar> < rat_of_int 2" by simp
  then have "\<bar>ct - (ca + cd)\<bar> < 2" by (simp only: of_int_less_iff)
  then have "\<bar>ct - (ca + cd)\<bar> \<le> 1" by simp
  with ct(1) ca(1) cd(1) d(1) show ?thesis by metis
qed

section \<open>Properties of the valuation\<close>

lemma balance_step_spec:
  "balance_step prices tot b =
     (if jgt (total_amount b) (Fin 0) then jadd tot (spec_contribution prices b)
      else tot)"
  by (auto simp: balance_step_def spec_contribution_def total_amount_def truthy_def Let_def
        jadd_zero_right split: option.splits)

lemma foldl_balance_step_spec:
  "foldl (balance_step prices) acc bs =
     foldl jadd acc (map (spec_contribution prices)
                         (filter (\<lambda>b. jgt (total_amount b) (Fin 0)) bs))"
proof (induction bs arbitrary: acc)
  case Nil
  show ?case by simp
next
  case (Cons b bs)
  have "foldl (balance_step prices) acc (b # bs) =
          foldl jadd (balance_step prices acc b)
            (map (spec_contribution prices)
                 (filter (\<lambda>b. jgt (total_amount b) (Fin 0)) bs))"
    using Cons.IH [of "balance_step prices acc b"] by simp
  also have "\<dots> = foldl jadd acc (map (spec_contribution prices)
                        (filter (\<lambda>b. jgt (total_amount b) (Fin 0)) (b # bs)))"
    unfolding balance_step_spec by simp
  finally show ?case .
qed

text \<open>
  C1. For every list of balances and every price table, \<open>calculateTotalBalance\<close> is the
  sum, over exactly the entries with \<open>free + locked > 0\<close> and in list order, of the
  entry's total for USDT and for BUSD, and otherwise of the total times the price found
  under \<open>asset + "USDT"\<close>, or \<open>0\<close> when no price is found there. An entry of the table
  that is the empty string is no price.
\<close>

theorem calculateTotalBalance_is_spec_valuation:
  "calculateTotalBalance bs prices = spec_valuation bs prices"
  unfolding calculateTotalBalance_def spec_valuation_def sum_numbers_def
  by (rule foldl_balance_step_spec)

lemma blank_total:
  "calculateTotalBalance (scenario_balances @ xyz_balances) blank_prices = Fin 18100"
  by (simp add: calculateTotalBalance_def scenario_balances_def xyz_balances_def
        blank_prices_def balance_step_def parse_eval truthy_def Let_def round64_eval)

theorem calculateTotalBalance_is_spec_valuation_witness:
  "spec_valuation (scenario_balances @ xyz_balances) blank_prices = Fin 18100"
  using calculateTotalBalance_is_spec_valuation
    [of "scenario_balances @ xyz_balances" blank_prices]
  by (simp add: blank_total)

subsection \<open>The end-to-end scenario\<close>

lemmas step_eval = balance_step_def parse_eval truthy_def Let_def

lemma scenario_nonZero: "nonZeroBalances scenario_balances = scenario_balances"
  by (simp add: nonZeroBalances_def scenario_balances_def parse_eval)

lemma scenario_total: "calculateTotalBalance scenario_balances scenario_prices = Fin 18100"
  by (simp add: calculateTotalBalance_def scenario_balances_def scenario_prices_def
        step_eval round64_eval)

lemma scenario_available:
  "calculateTotalBalance (map (\<lambda>b. b\<lparr>locked := ''0''\<rparr>) scenario_balances) scenario_prices
     = Fin 15100"
  by (simp add: calculateTotalBalance_def scenario_balances_def scenario_prices_def
        step_eval round64_eval)

lemma round2_scenario:
  "round2 (Fin 18100) = Fin 18100" "round2 (Fin 15100) = Fin 15100"
  "round2 (jsub (Fin 18100) (Fin 15100)) = Fin 3000"
  by (simp_all add: round2_def jsub_def round64_eval)

lemma scenario_btc_price: "scenario_prices ''BTCUSDT'' = Some ''30000''"
  by (simp add: scenario_prices_def)

lemma scenario_btc: "toFixed 8 (jdiv (Fin 18100) (Fin 30000)) = ''0.60333333''"
  by (simp add: round64_eval print_eval)

lemmas scenario_eval =
  balanceData_of_def account_of_def Let_def scenario_nonZero scenario_total
  scenario_available round2_scenario

text \<open>
  C7. For the balances 0.5 BTC free and 0.1 BTC locked, 100 USDT free and none locked,
  with BTC priced at 30000 USDT, the response has total 18100, available 15100,
  inOrders 3000 and the BTC equivalent \<open>"0.60333333"\<close>.
\<close>

theorem scenario_response:
  "total_field (balanceData_of (account_of scenario_balances) scenario_prices now_iso) = Fin 18100 \<and>
   available (balanceData_of (account_of scenario_balances) scenario_prices now_iso) = Fin 15100 \<and>
   inOrders (balanceData_of (account_of scenario_balances) scenario_prices now_iso) = Fin 3000 \<and>
   btcValue (balanceData_of (account_of scenario_balances) scenario_prices now_iso)
     = Some ''0.60333333''"
proof (intro conjI)
  show "total_field (balanceData_of (account_of scenario_balances) scenario_prices now_iso)
          = Fin 18100"
    by (simp add: scenario_eval)
  show "available (balanceData_of (account_of scenario_balances) scenario_prices now_iso)
          = Fin 15100"
    by (simp add: scenario_eval)
  show "inOrders (balanceData_of (account_of scenario_balances) scenario_prices now_iso)
          = Fin 3000"
    by (simp add: scenario_eval)
  show "btcValue (balanceData_of (account_of scenario_balances) scenario_prices now_iso)
          = Some ''0.60333333''"
    by (simp add: scenario_eval scenario_btc_price truthy_def parse_eval round64_eval
        print_eval)
qed

subsection \<open>The per-asset rows\<close>

lemma row_total_asset_row_of: "row_total (asset_row_of prices b) = total_amount b"
  by (simp add: asset_row_of_def total_amount_def)

lemma per_asset_rows:
  "balances_field (balanceData_of acct prices now_iso) =
     map (asset_row_of prices) (filter (\<lambda>b. jgt (total_amount b) (Fin 0)) (balances acct))"
proof -
  have "filter (\<lambda>b. jgt (total_amount b) (Fin 0)) (nonZeroBalances (balances acct)) =
        filter (\<lambda>b. jgt (total_amount b) (Fin 0)) (balances acct)"
    unfolding nonZeroBalances_def filter_filter
    by (rule filter_cong) (auto simp: total_amount_def dest: jgt_jadd_pos)
  then show ?thesis
    by (simp add: balanceData_of_def Let_def filter_map o_def row_total_asset_row_of)
qed

lemma xyz_nonZero: "nonZeroBalances xyz_balances = xyz_balances"
  by (simp add: nonZeroBalances_def xyz_balances_def parse_eval)

lemma xyz_total: "calculateTotalBalance xyz_balances Map.empty = Fin 0"
  by (simp add: calculateTotalBalance_def xyz_balances_def step_eval)

lemma xyz_rows:
  "map (asset_row_of Map.empty) (filter (\<lambda>b. jgt (total_amount b) (Fin 0)) xyz_balances) =
     [\<lparr>row_asset = ''XYZ'', row_free = Fin 10, row_locked = Fin 0, row_total = Fin 10,
       usdtValue = Fin 0\<rparr>]"
  by (simp add: xyz_balances_def total_amount_def asset_row_of_def parse_eval)

text \<open>
  C8. The per-asset list keeps exactly the entries whose raw total \<open>free + locked\<close> is
  greater than \<open>0\<close>, in their order, whatever their value in USDT: an entry is dropped
  only when its raw total is not greater than \<open>0\<close>. For 10 XYZ and an empty price table
  the reported total is \<open>0\<close> and the list holds the XYZ row with total 10 and
  \<open>usdtValue\<close> 0.
\<close>

theorem per_asset_rows_filter_on_raw_total:
  "total_field (balanceData_of (account_of xyz_balances) Map.empty now_iso) = Fin 0 \<and>
   balances_field (balanceData_of (account_of xyz_balances) Map.empty now_iso) =
     [\<lparr>row_asset = ''XYZ'', row_free = Fin 10, row_locked = Fin 0, row_total = Fin 10,
       usdtValue = Fin 0\<rparr>] \<and>
   balances_field (balanceData_of acct prices now_iso) =
     map (asset_row_of prices) (filter (\<lambda>b. jgt (total_amount b) (Fin 0)) (balances acct))"
proof (intro conjI)
  show "total_field (balanceData_of (account_of xyz_balances) Map.empty now_iso) = Fin 0"
    by (simp add: balanceData_of_def account_of_def Let_def xyz_nonZero xyz_total round2_zero)
  show "balances_field (balanceData_of (account_of xyz_balances) Map.empty now_iso) =
     [\<lparr>row_asset = ''XYZ'', row_free = Fin 10, row_locked = Fin 0, row_total = Fin 10,
       usdtValue = Fin 0\<rparr>]"
    unfolding per_asset_rows by (simp add: account_of_def xyz_rows)
  show "balances_field (balanceData_of acct prices now_iso) =
     map (asset_row_of prices) (filter (\<lambda>b. jgt (total_amount b) (Fin 0)) (balances acct))"
    by (rule per_asset_rows)
qed

subsection \<open>Amounts that are not numbers\<close>

lemma malformed_step: "malformed b \<Longrightarrow> balance_step prices tot b = tot"
  by (auto simp: malformed_def balance_step_def Let_def jadd_NaN_right)

lemma foldl_step_wellformed:
  "foldl (balance_step prices) acc bs =
   foldl (balance_step prices) acc (filter (\<lambda>b. \<not> malformed b) bs)"
  by (induction bs arbitrary: acc) (simp_all add: malformed_step)

lemma step_nonneg:
  assumes tot: "nonneg tot"
    and prices: "\<forall>k p. prices k = Some p \<longrightarrow> price_ok p"
    and b: "malformed b \<or> is_fin (total_amount b)"
  shows "nonneg (balance_step prices tot b)"
proof (cases "jgt (total_amount b) (Fin 0)")
  case False
  then show ?thesis using tot by (simp add: balance_step_def total_amount_def Let_def)
next
  case True
  then have "\<not> malformed b"
    by (auto simp: malformed_def total_amount_def jadd_NaN_right)
  with b obtain t where t: "total_amount b = Fin t" by (auto simp: is_fin_iff)
  with True have pos: "0 < t" by simp
  have amount: "nonneg (Fin t)" using pos by simp
  show ?thesis
  proof (cases "prices (asset b @ ''USDT'')")
    case None
    then show ?thesis
      using tot t pos jadd_nonneg [OF tot amount]
      by (simp add: balance_step_def total_amount_def Let_def)
  next
    case (Some p)
    with prices have "price_ok p" by blast
    then obtain x where x: "parseFloat p = Fin x" "0 \<le> x"
      by (auto simp: price_ok_def is_fin_iff)
    have "nonneg (jmul (Fin t) (Fin x))"
      using pos x(2) by (intro jmul_nonneg_fin) simp_all
    then have "nonneg (jadd tot (jmul (Fin t) (Fin x)))"
      by (rule jadd_nonneg [OF tot])
    then show ?thesis
      using tot t pos Some x jadd_nonneg [OF tot amount]
      by (simp add: balance_step_def total_amount_def Let_def)
  qed
qed

lemma foldl_step_nonneg:
  assumes prices: "\<forall>k p. prices k = Some p \<longrightarrow> price_ok p"
  shows "\<forall>b \<in> set bs. malformed b \<or> is_fin (total_amount b) \<Longrightarrow> nonneg acc \<Longrightarrow>
         nonneg (foldl (balance_step prices) acc bs)"
proof (induction bs arbitrary: acc)
  case Nil
  then show ?case by simp
next
  case (Cons b bs)
  have "nonneg (balance_step prices acc b)"
    using Cons.prems prices by (intro step_nonneg) auto
  then show ?case using Cons by simp
qed

lemma mixed_total_garbled: "calculateTotalBalance mixed_balances garbled_prices = NaN"
  by (simp add: calculateTotalBalance_def mixed_balances_def garbled_prices_def step_eval)

lemma xyz_prices_ok: "\<forall>k p. xyz_prices k = Some p \<longrightarrow> price_ok p"
  by (simp add: xyz_prices_def price_ok_def parse_eval)

lemma mixed_amounts: "\<forall>b \<in> set mixed_balances. malformed b \<or> is_fin (total_amount b)"
  by (simp add: mixed_balances_def malformed_def total_amount_def parse_eval)

text \<open>
  An amount written after a no-break space is read as a number: the entry is not
  malformed and adds its amount.
\<close>

lemma no_break_space_amount:
  "\<not> malformed \<lparr>asset = ''USDT'', free = [CHR 0xC2, CHR 0xA0, CHR ''5''], locked = ''0''\<rparr>"
  "calculateTotalBalance
     [\<lparr>asset = ''USDT'', free = [CHR 0xC2, CHR 0xA0, CHR ''5''], locked = ''0''\<rparr>] prices
     = Fin 5"
  by (simp_all add: malformed_def calculateTotalBalance_def balance_step_def Let_def
        parse_white_space parse_eval)

text \<open>
  C10. An entry whose \<open>free\<close> or \<open>locked\<close> is read as \<open>NaN\<close> leaves the running total
  unchanged, so the total of any list is the total of its well-formed entries alone. The
  total is not \<open>NaN\<close> when, besides, every price in the table reads as a finite number
  that is not negative and every well-formed entry has a finite amount \<open>free + locked\<close>.
  A price that is not a number does make the total \<open>NaN\<close>: the guard on the amount
  does not look at the price.
\<close>

theorem malformed_entries_contribute_nothing:
  "(malformed b \<longrightarrow> balance_step prices tot b = tot) \<and>
   calculateTotalBalance bs prices =
     calculateTotalBalance (filter (\<lambda>b. \<not> malformed b) bs) prices \<and>
   ((\<forall>k p. prices k = Some p \<longrightarrow> price_ok p) \<and>
    (\<forall>b \<in> set bs. malformed b \<or> is_fin (total_amount b)) \<longrightarrow>
      calculateTotalBalance bs prices \<noteq> NaN)"
proof (intro conjI impI)
  show "balance_step prices tot b = tot" if "malformed b"
    using that by (rule malformed_step)
  show "calculateTotalBalance bs prices =
          calculateTotalBalance (filter (\<lambda>b. \<not> malformed b) bs) prices"
    unfolding calculateTotalBalance_def by (rule foldl_step_wellformed)
  show "calculateTotalBalance bs prices \<noteq> NaN"
    if "(\<forall>k p. prices k = Some p \<longrightarrow> price_ok p) \<and>
        (\<forall>b \<in> set bs. malformed b \<or> is_fin (total_amount b))"
  proof -
    have "nonneg (foldl (balance_step prices) (Fin 0) bs)"
      using that by (intro foldl_step_nonneg) simp_all
    then show ?thesis
      unfolding calculateTotalBalance_def by (rule nonneg_not_NaN)
  qed
qed

theorem malformed_entries_contribute_nothing_witness:
  "malformed (mixed_balances ! 1) \<and>
   balance_step xyz_prices (Fin 1) (mixed_balances ! 1) = Fin 1 \<and>
   calculateTotalBalance mixed_balances xyz_prices =
     calculateTotalBalance (filter (\<lambda>b. \<not> malformed b) mixed_balances) xyz_prices \<and>
   calculateTotalBalance mixed_balances xyz_prices \<noteq> NaN"
proof -
  have m: "malformed (mixed_balances ! 1)"
    by (simp add: mixed_balances_def malformed_def parse_eval)
  note inst = malformed_entries_contribute_nothing
    [of "mixed_balances ! 1" xyz_prices "Fin 1" mixed_balances]
  from inst m xyz_prices_ok mixed_amounts show ?thesis by blast
qed

theorem total_NaN_counterexample:
  "calculateTotalBalance mixed_balances garbled_prices = NaN"
  by (rule mixed_total_garbled)

subsection \<open>Available and in orders\<close>

lemma step_locked_zero:
  "parseFloat (locked b) = Fin 0 \<Longrightarrow>
     balance_step prices tot (b\<lparr>locked := ''0''\<rparr>) = balance_step prices tot b"
  by (simp add: balance_step_def parse_eval Let_def)

lemma foldl_step_locked_zero:
  "\<forall>b \<in> set bs. parseFloat (locked b) = Fin 0 \<Longrightarrow>
     foldl (balance_step prices) acc (map (\<lambda>b. b\<lparr>locked := ''0''\<rparr>) bs) =
     foldl (balance_step prices) acc bs"
  by (induction bs arbitrary: acc) (simp_all add: step_locked_zero)

lemma nothing_locked:
  assumes "\<forall>b \<in> set (balances acct). parseFloat (locked b) = Fin 0"
    and "is_fin (calculateTotalBalance (nonZeroBalances (balances acct)) prices)"
  shows "inOrders (balanceData_of acct prices now_iso) = Fin 0 \<and>
         total_field (balanceData_of acct prices now_iso) =
           available (balanceData_of acct prices now_iso)"
proof -
  have "\<forall>b \<in> set (nonZeroBalances (balances acct)). parseFloat (locked b) = Fin 0"
    using assms(1) by (simp add: nonZeroBalances_def)
  then have same:
    "calculateTotalBalance (map (\<lambda>b. b\<lparr>locked := ''0''\<rparr>) (nonZeroBalances (balances acct))) prices
       = calculateTotalBalance (nonZeroBalances (balances acct)) prices"
    unfolding calculateTotalBalance_def by (rule foldl_step_locked_zero)
  show ?thesis
    using assms(2) by (simp add: balanceData_of_def Let_def same jsub_self round2_zero)
qed

lemma cents_nonZero: "nonZeroBalances cents_balances = cents_balances"
  by (simp add: nonZeroBalances_def cents_balances_def parse_eval)

lemma cents_valuations:
  "calculateTotalBalance cents_balances Map.empty = Fin (1010495166391255 / 562949953421312)"
  "calculateTotalBalance (map (\<lambda>b. b\<lparr>locked := ''0''\<rparr>) cents_balances) Map.empty
     = Fin (8016407336719483 / 9007199254740992)"
  "calculateTotalBalance (map (\<lambda>b. b\<lparr>free := ''0''\<rparr>) cents_balances) Map.empty
     = Fin (4075757662770299 / 4503599627370496)"
  by (simp_all add: calculateTotalBalance_def cents_balances_def step_eval round64_eval)

lemma cents_rounded:
  "round2 (Fin (1010495166391255 / 562949953421312))
     = Fin (8106479329266893 / 4503599627370496)"
  "round2 (Fin (8016407336719483 / 9007199254740992))
     = Fin (8016407336719483 / 9007199254740992)"
  "round2 (jsub (Fin (1010495166391255 / 562949953421312))
                (Fin (8016407336719483 / 9007199254740992)))
     = Fin (8106479329266893 / 9007199254740992)"
  "round2 (Fin (4075757662770299 / 4503599627370496))
     = Fin (8196551321814303 / 9007199254740992)"
  by (simp_all add: round2_def jsub_def round64_eval)

lemma parse_cents:
  "parseFloat ''1.8'' = Fin (8106479329266893 / 4503599627370496)"
  "parseFloat ''0.9'' = Fin (8106479329266893 / 9007199254740992)"
  "parseFloat ''0.91'' = Fin (8196551321814303 / 9007199254740992)"
  "parseFloat ''0.01'' = Fin (5764607523034235 / 576460752303423488)"
  by (simp_all add: parseFloat_def read_eval round64_eval)

lemmas cents_eval =
  balanceData_of_def spec_inOrders_def account_of_def Let_def cents_nonZero cents_valuations
  cents_rounded parse_cents parse_eval

text \<open>
  C3 as stated fails. With 0.89 USDT free and 0.905 USDT locked the response reports
  total 1.8, available 0.89 and inOrders 0.9, while the valuation run again with every
  \<open>free\<close> zeroed gives 0.91; and \<open>total - (available + inOrders)\<close>, computed as the
  code computes, is greater than 0.01.
\<close>

theorem inOrders_rerun_counterexample:
  "total_field (balanceData_of (account_of cents_balances) Map.empty some_time)
     = parseFloat ''1.8'' \<and>
   available (balanceData_of (account_of cents_balances) Map.empty some_time)
     = parseFloat ''0.89'' \<and>
   inOrders (balanceData_of (account_of cents_balances) Map.empty some_time)
     = parseFloat ''0.9'' \<and>
   spec_inOrders (account_of cents_balances) Map.empty = parseFloat ''0.91'' \<and>
   parseFloat ''0.9'' \<noteq> parseFloat ''0.91'' \<and>
   jgt (jsub (total_field (balanceData_of (account_of cents_balances) Map.empty some_time))
             (jadd (available (balanceData_of (account_of cents_balances) Map.empty some_time))
                   (inOrders (balanceData_of (account_of cents_balances) Map.empty some_time))))
       (parseFloat ''0.01'')"
proof -
  have t: "total_field (balanceData_of (account_of cents_balances) Map.empty some_time)
          = parseFloat ''1.8''"
    by (simp add: cents_eval)
  have a: "available (balanceData_of (account_of cents_balances) Map.empty some_time)
          = parseFloat ''0.89''"
    by (simp add: cents_eval)
  have i: "inOrders (balanceData_of (account_of cents_balances) Map.empty some_time)
          = parseFloat ''0.9''"
    by (simp add: cents_eval)
  have s: "spec_inOrders (account_of cents_balances) Map.empty = parseFloat ''0.91''"
    by (simp add: cents_eval)
  have d: "parseFloat ''0.9'' \<noteq> parseFloat ''0.91''"
    by (simp add: parse_cents)
  have g: "jgt (jsub (parseFloat ''1.8'') (jadd (parseFloat ''0.89'') (parseFloat ''0.9'')))
               (parseFloat ''0.01'')"
    by (simp add: parse_cents parse_eval jsub_def round64_eval)
  show ?thesis
    unfolding t a i s using d g by simp
qed

lemma cents_within_one:
  assumes "magnitude_below (2 ^ 40) (calculateTotalBalance (nonZeroBalances (balances acct)) prices)"
    and "magnitude_below (2 ^ 40)
           (calculateTotalBalance
              (map (\<lambda>b. b\<lparr>locked := ''0''\<rparr>) (nonZeroBalances (balances acct))) prices)"
  shows "\<exists>ct ca cd :: int.
           total_field (balanceData_of acct prices now_iso) = jdiv (Fin (of_int ct)) (Fin 100) \<and>
           available (balanceData_of acct prices now_iso) = jdiv (Fin (of_int ca)) (Fin 100) \<and>
           inOrders (balanceData_of acct prices now_iso) = jdiv (Fin (of_int cd)) (Fin 100) \<and>
           \<bar>ct - (ca + cd)\<bar> \<le> 1"
proof -
  from assms(1) obtain t
    where t: "calculateTotalBalance (nonZeroBalances (balances acct)) prices = Fin t"
      "\<bar>t\<bar> < 2 ^ 40"
    by (cases "calculateTotalBalance (nonZeroBalances (balances acct)) prices") simp_all
  from assms(2) obtain a
    where a: "calculateTotalBalance
                (map (\<lambda>b. b\<lparr>locked := ''0''\<rparr>) (nonZeroBalances (balances acct))) prices = Fin a"
      "\<bar>a\<bar> < 2 ^ 40"
    by (cases "calculateTotalBalance
                 (map (\<lambda>b. b\<lparr>locked := ''0''\<rparr>) (nonZeroBalances (balances acct))) prices")
       simp_all
  from whole_cents [OF t(2) a(2)] show ?thesis
    by (simp add: balanceData_of_def Let_def t(1) a(1))
qed

text \<open>
  C3, amended. The reported \<open>available\<close> is the valuation run again on the balances with
  every \<open>locked\<close> zeroed, rounded to two digits, and the reported \<open>inOrders\<close> is the
  difference of the two unrounded valuations, rounded to two digits: no third valuation
  is run. When every \<open>locked\<close> amount reads as \<open>0\<close> and the total is finite, \<open>inOrders\<close> is
  \<open>0\<close> and \<open>total\<close> equals \<open>available\<close>. When both valuations are finite and below \<open>2^40\<close>
  in absolute value, the three reported amounts are whole numbers of cents \<open>ct\<close>, \<open>ca\<close>
  and \<open>cd\<close>, each divided by 100, and \<open>ct\<close> differs from \<open>ca + cd\<close> by at most one.
\<close>

theorem inOrders_is_rounded_difference:
  "available (balanceData_of acct prices now_iso) =
     round2 (calculateTotalBalance
               (map (\<lambda>b. b\<lparr>locked := ''0''\<rparr>) (nonZeroBalances (balances acct))) prices) \<and>
   inOrders (balanceData_of acct prices now_iso) =
     round2 (jsub (calculateTotalBalance (nonZeroBalances (balances acct)) prices)
                  (calculateTotalBalance
                     (map (\<lambda>b. b\<lparr>locked := ''0''\<rparr>) (nonZeroBalances (balances acct))) prices)) \<and>
   ((\<forall>b \<in> set (balances acct). parseFloat (locked b) = Fin 0) \<and>
    is_fin (calculateTotalBalance (nonZeroBalances (balances acct)) prices) \<longrightarrow>
      inOrders (balanceData_of acct prices now_iso) = Fin 0 \<and>
      total_field (balanceData_of acct prices now_iso) =
        available (balanceData_of acct prices now_iso)) \<and>
   (magnitude_below (2 ^ 40) (calculateTotalBalance (nonZeroBalances (balances acct)) prices) \<and>
    magnitude_below (2 ^ 40)
      (calculateTotalBalance
         (map (\<lambda>b. b\<lparr>locked := ''0''\<rparr>) (nonZeroBalances (balances acct))) prices) \<longrightarrow>
      (\<exists>ct ca cd :: int.
         total_field (balanceData_of acct prices now_iso) = jdiv (Fin (of_int ct)) (Fin 100) \<and>
         available (balanceData_of acct prices now_iso) = jdiv (Fin (of_int ca)) (Fin 100) \<and>
         inOrders (balanceData_of acct prices now_iso) = jdiv (Fin (of_int cd)) (Fin 100) \<and>
         \<bar>ct - (ca + cd)\<bar> \<le> 1))"
proof (intro conjI impI)
  show "available (balanceData_of acct prices now_iso) =
     round2 (calculateTotalBalance
               (map (\<lambda>b. b\<lparr>locked := ''0''\<rparr>) (nonZeroBalances (balances acct))) prices)"
    by (simp add: balanceData_of_def Let_def)
  show "inOrders (balanceData_of acct prices now_iso) =
     round2 (jsub (calculateTotalBalance (nonZeroBalances (balances acct)) prices)
                  (calculateTotalBalance
                     (map (\<lambda>b. b\<lparr>locked := ''0''\<rparr>) (nonZeroBalances (balances acct))) prices))"
    by (simp add: balanceData_of_def Let_def)
next
  assume h: "(\<forall>b \<in> set (balances acct). parseFloat (locked b) = Fin 0) \<and>
    is_fin (calculateTotalBalance (nonZeroBalances (balances acct)) prices)"
  then show "inOrders (balanceData_of acct prices now_iso) = Fin 0"
    using nothing_locked [of acct prices now_iso] by blast
  from h show "total_field (balanceData_of acct prices now_iso) =
        available (balanceData_of acct prices now_iso)"
    using nothing_locked [of acct prices now_iso] by blast
next
  assume "magnitude_below (2 ^ 40)
            (calculateTotalBalance (nonZeroBalances (balances acct)) prices) \<and>
    magnitude_below (2 ^ 40)
      (calculateTotalBalance
         (map (\<lambda>b. b\<lparr>locked := ''0''\<rparr>) (nonZeroBalances (balances acct))) prices)"
  then show "\<exists>ct ca cd :: int.
         total_field (balanceData_of acct prices now_iso) = jdiv (Fin (of_int ct)) (Fin 100) \<and>
         available (balanceData_of acct prices now_iso) = jdiv (Fin (of_int ca)) (Fin 100) \<and>
         inOrders (balanceData_of acct prices now_iso) = jdiv (Fin (of_int cd)) (Fin 100) \<and>
         \<bar>ct - (ca + cd)\<bar> \<le> 1"
    using cents_within_one [of acct prices now_iso] by blast
qed

lemma xyz_priced_total: "calculateTotalBalance xyz_balances xyz_prices = Fin 25"
  by (simp add: calculateTotalBalance_def xyz_balances_def xyz_prices_def step_eval
        round64_eval)

theorem inOrders_is_rounded_difference_witness:
  "(inOrders (balanceData_of (account_of xyz_balances) xyz_prices some_time) = Fin 0 \<and>
    total_field (balanceData_of (account_of xyz_balances) xyz_prices some_time) =
      available (balanceData_of (account_of xyz_balances) xyz_prices some_time) \<and>
    total_field (balanceData_of (account_of xyz_balances) xyz_prices some_time) = Fin 25) \<and>
   (total_field (balanceData_of (account_of cents_balances) Map.empty some_time)
      = parseFloat ''1.8'' \<and>
    available (balanceData_of (account_of cents_balances) Map.empty some_time)
      = parseFloat ''0.89'' \<and>
    inOrders (balanceData_of (account_of cents_balances) Map.empty some_time)
      = parseFloat ''0.9'' \<and>
    inOrders (balanceData_of (account_of cents_balances) Map.empty some_time) =
      round2 (jsub (calculateTotalBalance cents_balances Map.empty)
                   (calculateTotalBalance (map (\<lambda>b. b\<lparr>locked := ''0''\<rparr>) cents_balances)
                      Map.empty)) \<and>
    (\<exists>ct ca cd :: int.
       total_field (balanceData_of (account_of cents_balances) Map.empty some_time)
         = jdiv (Fin (of_int ct)) (Fin 100) \<and>
       available (balanceData_of (account_of cents_balances) Map.empty some_time)
         = jdiv (Fin (of_int ca)) (Fin 100) \<and>
       inOrders (balanceData_of (account_of cents_balances) Map.empty some_time)
         = jdiv (Fin (of_int cd)) (Fin 100) \<and>
       \<bar>ct - (ca + cd)\<bar> \<le> 1))"
proof (rule conjI)
  have locked: "\<forall>b \<in> set (balances (account_of xyz_balances)). parseFloat (locked b) = Fin 0"
    by (simp add: account_of_def xyz_balances_def parse_eval)
  have fin: "is_fin (calculateTotalBalance
                       (nonZeroBalances (balances (account_of xyz_balances))) xyz_prices)"
    by (simp add: account_of_def xyz_nonZero xyz_priced_total)
  have "total_field (balanceData_of (account_of xyz_balances) xyz_prices some_time) = Fin 25"
    by (simp add: balanceData_of_def account_of_def Let_def xyz_nonZero xyz_priced_total
          round2_def round64_eval)
  with inOrders_is_rounded_difference [of "account_of xyz_balances" xyz_prices some_time]
    locked fin
  show "inOrders (balanceData_of (account_of xyz_balances) xyz_prices some_time) = Fin 0 \<and>
    total_field (balanceData_of (account_of xyz_balances) xyz_prices some_time) =
      available (balanceData_of (account_of xyz_balances) xyz_prices some_time) \<and>
    total_field (balanceData_of (account_of xyz_balances) xyz_prices some_time) = Fin 25"
    by blast
next
  have below: "magnitude_below (2 ^ 40)
      (calculateTotalBalance (nonZeroBalances (balances (account_of cents_balances))) Map.empty)"
    "magnitude_below (2 ^ 40)
      (calculateTotalBalance
         (map (\<lambda>b. b\<lparr>locked := ''0''\<rparr>)
            (nonZeroBalances (balances (account_of cents_balances))))
         Map.empty)"
    by (simp_all add: account_of_def cents_nonZero cents_valuations)
  have same: "nonZeroBalances (balances (account_of cents_balances)) = cents_balances"
    by (simp add: account_of_def cents_nonZero)
  have t: "total_field (balanceData_of (account_of cents_balances) Map.empty some_time)
          = parseFloat ''1.8''"
    by (simp add: cents_eval)
  have a: "available (balanceData_of (account_of cents_balances) Map.empty some_time)
          = parseFloat ''0.89''"
    by (simp add: cents_eval)
  have i: "inOrders (balanceData_of (account_of cents_balances) Map.empty some_time)
          = parseFloat ''0.9''"
    by (simp add: cents_eval)
  note inst = inOrders_is_rounded_difference [of "account_of cents_balances" Map.empty some_time]
  from inst have d: "inOrders (balanceData_of (account_of cents_balances) Map.empty some_time) =
      round2 (jsub (calculateTotalBalance cents_balances Map.empty)
                   (calculateTotalBalance (map (\<lambda>b. b\<lparr>locked := ''0''\<rparr>) cents_balances)
                      Map.empty))"
    unfolding same by blast
  from inst below have "\<exists>ct ca cd :: int.
       total_field (balanceData_of (account_of cents_balances) Map.empty some_time)
         = jdiv (Fin (of_int ct)) (Fin 100) \<and>
       available (balanceData_of (account_of cents_balances) Map.empty some_time)
         = jdiv (Fin (of_int ca)) (Fin 100) \<and>
       inOrders (balanceData_of (account_of cents_balances) Map.empty some_time)
         = jdiv (Fin (of_int cd)) (Fin 100) \<and>
       \<bar>ct - (ca + cd)\<bar> \<le> 1"
    by blast
  with t a i d
  show "total_field (balanceData_of (account_of cents_balances) Map.empty some_time)
      = parseFloat ''1.8'' \<and>
    available (balanceData_of (account_of cents_balances) Map.empty some_time)
      = parseFloat ''0.89'' \<and>
    inOrders (balanceData_of (account_of cents_balances) Map.empty some_time)
      = parseFloat ''0.9'' \<and>
    inOrders (balanceData_of (account_of cents_balances) Map.empty some_time) =
      round2 (jsub (calculateTotalBalance cents_balances Map.empty)
                   (calculateTotalBalance (map (\<lambda>b. b\<lparr>locked := ''0''\<rparr>) cents_balances)
                      Map.empty)) \<and>
    (\<exists>ct ca cd :: int.
       total_field (balanceData_of (account_of cents_balances) Map.empty some_time)
         = jdiv (Fin (of_int ct)) (Fin 100) \<and>
       available (balanceData_of (account_of cents_balances) Map.empty some_time)
         = jdiv (Fin (of_int ca)) (Fin 100) \<and>
       inOrders (balanceData_of (account_of cents_balances) Map.empty some_time)
         = jdiv (Fin (of_int cd)) (Fin 100) \<and>
       \<bar>ct - (ca + cd)\<bar> \<le> 1)"
    by (intro conjI)
qed

subsection \<open>The BTC equivalent\<close>

lemma thirds_nonZero: "nonZeroBalances thirds_balances = thirds_balances"
  by (simp add: nonZeroBalances_def thirds_balances_def parse_eval)

lemma thirds_total:
  "calculateTotalBalance thirds_balances thirds_prices = Fin 2"
  "calculateTotalBalance thirds_balances zero_prices = Fin 2"
  by (simp_all add: calculateTotalBalance_def thirds_balances_def step_eval)

lemma btc_prices:
  "thirds_prices ''BTCUSDT'' = Some ''3''" "zero_prices ''BTCUSDT'' = Some ''0.00000000''"
  by (simp_all add: thirds_prices_def zero_prices_def)

lemma two_thirds: "jdiv (Fin 2) (Fin 3) = Fin (6004799503160661 / 9007199254740992)"
  by (simp add: round64_eval)

lemma two_thirds_printed:
  "toFixed 8 (Fin (6004799503160661 / 9007199254740992)) = ''0.66666667''"
  "truncated 8 (6004799503160661 / 9007199254740992) = ''0.66666666''"
  by (simp_all add: truncated_def print_eval)

lemmas thirds_eval =
  balanceData_of_def spec_btcEquivalent_def account_of_def Let_def thirds_nonZero thirds_total
  btc_prices truthy_def parse_eval

text \<open>
  C4 as stated fails. With a total of 2 USDT and BTC priced at 3 the field is
  \<open>"0.66666667"\<close>, the quotient rounded to the nearest, where cutting the digits off
  gives \<open>"0.66666666"\<close>. With BTC priced at \<open>"0.00000000"\<close> the field is present and
  is \<open>"Infinity"\<close>: the price string is not empty, so the guard lets it through.
\<close>

theorem btcValue_counterexample:
  "btcValue (balanceData_of (account_of thirds_balances) thirds_prices some_time)
     = Some ''0.66666667'' \<and>
   spec_btcEquivalent (calculateTotalBalance (nonZeroBalances thirds_balances) thirds_prices)
     thirds_prices = Some ''0.66666666'' \<and>
   btcValue (balanceData_of (account_of thirds_balances) zero_prices some_time)
     = Some ''Infinity'' \<and>
   spec_btcEquivalent (calculateTotalBalance (nonZeroBalances thirds_balances) zero_prices)
     zero_prices = None"
proof (intro conjI)
  have q: "toFixed 8 (jdiv (Fin 2) (Fin 3)) = ''0.66666667''"
    unfolding two_thirds by (rule two_thirds_printed)
  show "btcValue (balanceData_of (account_of thirds_balances) thirds_prices some_time)
          = Some ''0.66666667''"
    using q by (simp add: thirds_eval del: toFixed.simps jdiv.simps)
  show "spec_btcEquivalent (calculateTotalBalance (nonZeroBalances thirds_balances) thirds_prices)
          thirds_prices = Some ''0.66666666''"
    by (simp add: thirds_eval two_thirds two_thirds_printed del: jdiv.simps)
  show "btcValue (balanceData_of (account_of thirds_balances) zero_prices some_time)
          = Some ''Infinity''"
    by (simp add: thirds_eval signed_inf_def)
  show "spec_btcEquivalent (calculateTotalBalance (nonZeroBalances thirds_balances) zero_prices)
          zero_prices = None"
    by (simp add: thirds_eval signed_inf_def)
qed

lemma nearest_integer:
  fixes a :: rat
  assumes "0 \<le> a"
  shows "\<bar>of_nat (nat \<lfloor>a + 1 / 2\<rfloor>) - a\<bar> \<le> 1 / 2"
proof -
  have "0 \<le> \<lfloor>a + 1 / 2\<rfloor>" using assms by simp
  then have "(of_nat (nat \<lfloor>a + 1 / 2\<rfloor>) :: rat) = of_int \<lfloor>a + 1 / 2\<rfloor>" by simp
  moreover have "of_int \<lfloor>a + 1 / 2\<rfloor> \<le> a + 1 / 2" "a + 1 / 2 < of_int \<lfloor>a + 1 / 2\<rfloor> + 1"
    by linarith+
  ultimately show ?thesis by linarith
qed

lemma parseFloat_number_truthy: "parseFloat p = Fin x \<Longrightarrow> truthy p"
  by (auto simp: truthy_def parse_garbled)

text \<open>
  C4, amended. The field \<open>btcValue\<close> is left out when the price table has no entry, or an
  empty one, for \<open>BTCUSDT\<close>. When the entry reads as a finite price other than zero and
  the quotient \<open>total / price\<close> is finite and below \<open>10^21\<close> in absolute value, the field
  is present and prints the quotient with eight fractional digits, rounded to the nearest
  (the printed integer is within one half of the quotient times \<open>10^8\<close>), not cut off.
\<close>

theorem btcValue_rounds_to_nearest:
  "(prices ''BTCUSDT'' = None \<or> prices ''BTCUSDT'' = Some [] \<longrightarrow>
      btcValue (balanceData_of acct prices now_iso) = None) \<and>
   (\<forall>p x q. prices ''BTCUSDT'' = Some p \<and> parseFloat p = Fin x \<and> x \<noteq> 0 \<and>
        jdiv (calculateTotalBalance (nonZeroBalances (balances acct)) prices) (Fin x) = Fin q \<and>
        \<bar>q\<bar> < 10 ^ 21 \<longrightarrow>
      btcValue (balanceData_of acct prices now_iso) =
        Some ((if q < 0 then ''-'' else []) @
              fixed_point 8 (nat \<lfloor>\<bar>q\<bar> * 10 ^ 8 + 1 / 2\<rfloor>)) \<and>
      \<bar>of_nat (nat \<lfloor>\<bar>q\<bar> * 10 ^ 8 + 1 / 2\<rfloor>) - \<bar>q\<bar> * 10 ^ 8\<bar> \<le> 1 / 2)"
proof (intro conjI allI impI)
  assume "prices ''BTCUSDT'' = None \<or> prices ''BTCUSDT'' = Some []"
  then show "btcValue (balanceData_of acct prices now_iso) = None"
    by (auto simp: balanceData_of_def Let_def truthy_def)
next
  fix p x q
  assume h: "prices ''BTCUSDT'' = Some p \<and> parseFloat p = Fin x \<and> x \<noteq> 0 \<and>
        jdiv (calculateTotalBalance (nonZeroBalances (balances acct)) prices) (Fin x) = Fin q \<and>
        \<bar>q\<bar> < 10 ^ 21"
  then have "truthy p" by (auto intro: parseFloat_number_truthy)
  with h show "btcValue (balanceData_of acct prices now_iso) =
        Some ((if q < 0 then ''-'' else []) @
              fixed_point 8 (nat \<lfloor>\<bar>q\<bar> * 10 ^ 8 + 1 / 2\<rfloor>))"
    by (simp add: balanceData_of_def Let_def)
  show "\<bar>of_nat (nat \<lfloor>\<bar>q\<bar> * 10 ^ 8 + 1 / 2\<rfloor>) - \<bar>q\<bar> * 10 ^ 8\<bar> \<le> 1 / 2"
    by (rule nearest_integer) simp
qed

theorem btcValue_rounds_to_nearest_witness:
  "btcValue (balanceData_of (account_of thirds_balances) thirds_prices some_time)
     = Some ''0.66666667'' \<and>
   btcValue (balanceData_of (account_of xyz_balances) Map.empty some_time) = None"
proof -
  note inst = btcValue_rounds_to_nearest [of thirds_prices "account_of thirds_balances" some_time]
  have hyp: "thirds_prices ''BTCUSDT'' = Some ''3'' \<and> parseFloat ''3'' = Fin 3 \<and> (3::rat) \<noteq> 0 \<and>
        jdiv (calculateTotalBalance (nonZeroBalances (balances (account_of thirds_balances)))
                thirds_prices) (Fin 3) = Fin (6004799503160661 / 9007199254740992) \<and>
        \<bar>6004799503160661 / 9007199254740992 :: rat\<bar> < 10 ^ 21"
    by (simp add: account_of_def thirds_nonZero thirds_total btc_prices parse_eval two_thirds
          del: jdiv.simps)
  from inst hyp have
    "btcValue (balanceData_of (account_of thirds_balances) thirds_prices some_time) =
        Some ((if (6004799503160661 / 9007199254740992 :: rat) < 0 then ''-'' else []) @
              fixed_point 8 (nat \<lfloor>\<bar>6004799503160661 / 9007199254740992 :: rat\<bar> * 10 ^ 8 + 1 / 2\<rfloor>))"
    by blast
  then have first: "btcValue (balanceData_of (account_of thirds_balances) thirds_prices some_time)
     = Some ''0.66666667''"
    by (simp add: print_eval)
  have "btcValue (balanceData_of (account_of xyz_balances) Map.empty some_time) = None"
    using btcValue_rounds_to_nearest [of Map.empty "account_of xyz_balances" some_time]
    by simp
  with first show ?thesis by simp
qed

section \<open>Properties of the hash functions\<close>

lemmas sha_eval =
  next_word_def sha_round_def big_sigma0_def big_sigma1_def small_sigma0_def small_sigma1_def
  sha_choose_def sha_majority_def rotr_def shr_def add32_def not32_def

lemma eight_elements:
  "length s = 8 \<Longrightarrow> \<exists>a b c d e f g h. s = [a, b, c, d, e, f, g, h :: nat]"
  by (auto simp: length_Suc_conv eval_nat_numeral)

lemma length_sha_round: "length s = 8 \<Longrightarrow> length (sha_round k w s) = 8"
  by (auto simp: sha_round_def dest: eight_elements)

lemma length_rounds: "length s = 8 \<Longrightarrow> length (rounds ks w s) = 8"
  by (induction ks arbitrary: w s) (simp_all add: length_sha_round)

lemma length_compress: "length h = 8 \<Longrightarrow> length (compress h block) = 8"
  by (simp add: compress_def length_rounds)

lemma length_H256: "length H256 = 8"
  by (simp add: H256_def)

lemma length_word_bytes: "length (concat (map word_bytes ws)) = 4 * length ws"
  by (induction ws) (simp_all add: word_bytes_def)

lemma length_length_bytes: "length (length_bytes n) = 8"
  by (simp add: length_bytes_def)

text \<open>A message of one full block and fewer than 56 further bytes is hashed in two steps.\<close>

lemma hash_blocks_two:
  assumes "length b = 64" and "length r = 64"
  shows "hash_blocks h (b @ r) = compress (compress h (words_of b)) (words_of r)"
proof -
  have "hash_blocks h (b @ r) = hash_blocks (compress h (words_of b)) r"
    using assms by (subst hash_blocks.simps) simp
  also have "\<dots> = hash_blocks (compress (compress h (words_of b)) (words_of r)) []"
    using assms by (subst hash_blocks.simps) simp
  also have "\<dots> = compress (compress h (words_of b)) (words_of r)"
    by (subst hash_blocks.simps) simp
  finally show ?thesis .
qed

lemma sha256_after_block:
  assumes "length b = 64" and "length m = n" and "n < 56"
  shows "sha256 (b @ m) =
           concat (map word_bytes
             (compress (compress H256 (words_of b))
                (words_of (m @ [128] @ replicate (55 - n) 0 @ length_bytes (8 * (64 + n))))))"
proof -
  have "(119 - (64 + n) mod 64) mod 64 = 55 - n"
    using assms(3) by (simp add: mod_if)
  then have "pad (b @ m) = b @ (m @ [128] @ replicate (55 - n) 0 @ length_bytes (8 * (64 + n)))"
    using assms by (simp add: pad_def)
  moreover have "length (m @ [128] @ replicate (55 - n) 0 @ length_bytes (8 * (64 + n))) = 64"
    using assms by (simp add: length_length_bytes)
  ultimately show ?thesis
    using assms(1) by (simp add: sha256_def hash_blocks_two)
qed

text \<open>HMAC for a key of at most 64 bytes and a message of fewer than 56.\<close>

lemma hmac_short:
  assumes "length key \<le> 64" and "length m = n" and "n < 56"
  shows "hmac_sha256 key m =
           concat (map word_bytes
             (compress
                (compress H256 (words_of (map (\<lambda>b. b XOR 92) (key @ replicate (64 - length key) 0))))
                (words_of
                   (concat (map word_bytes
                      (compress
                         (compress H256
                            (words_of (map (\<lambda>b. b XOR 54) (key @ replicate (64 - length key) 0))))
                         (words_of (m @ [128] @ replicate (55 - n) 0 @ length_bytes (8 * (64 + n))))))
                    @ [128] @ replicate 23 0 @ length_bytes 768))))"
proof -
  let ?k = "key @ replicate (64 - length key) 0"
  have k: "length ?k = 64" using assms(1) by simp
  let ?inner = "sha256 (map (\<lambda>b. b XOR 54) ?k @ m)"
  have inner: "?inner =
      concat (map word_bytes
        (compress (compress H256 (words_of (map (\<lambda>b. b XOR 54) ?k)))
           (words_of (m @ [128] @ replicate (55 - n) 0 @ length_bytes (8 * (64 + n))))))"
    using k assms(2,3) by (intro sha256_after_block) simp_all
  have len: "length ?inner = 32"
    unfolding inner by (simp add: length_word_bytes length_compress length_H256)
  have "hmac_sha256 key m = sha256 (map (\<lambda>b. b XOR 92) ?k @ ?inner)"
    using assms(1) by (simp add: hmac_sha256_def Let_def)
  also have "\<dots> =
      concat (map word_bytes
        (compress (compress H256 (words_of (map (\<lambda>b. b XOR 92) ?k)))
           (words_of (?inner @ [128] @ replicate (55 - 32) 0 @ length_bytes (8 * (64 + 32))))))"
    using k len by (intro sha256_after_block) simp_all
  finally show ?thesis
    unfolding inner by simp
qed

subsection \<open>The key \<open>Jefe\<close>: a published test vector and two query strings\<close>

lemma jefe_pads:
  "words_of (map (\<lambda>b. b XOR 54) (bytes_of ''Jefe'' @ replicate (64 - length (bytes_of ''Jefe'')) 0)) =
     [
     2085834835, 909522486, 909522486, 909522486, 909522486, 909522486,
     909522486, 909522486, 909522486, 909522486, 909522486, 909522486,
     909522486, 909522486, 909522486, 909522486]"
  "words_of (map (\<lambda>b. b XOR 92) (bytes_of ''Jefe'' @ replicate (64 - length (bytes_of ''Jefe'')) 0)) =
     [
     372849209, 1549556828, 1549556828, 1549556828, 1549556828, 1549556828,
     1549556828, 1549556828, 1549556828, 1549556828, 1549556828, 1549556828,
     1549556828, 1549556828, 1549556828, 1549556828]"
  by (simp_all add: bytes_of_def replicate_numeral)

lemma jefe_inner_state:
  "compress H256
     [
     2085834835, 909522486, 909522486, 909522486, 909522486, 909522486,
     909522486, 909522486, 909522486, 909522486, 909522486, 909522486,
     909522486, 909522486, 909522486, 909522486] =
     [
     1700636666, 3426962231, 1511839179, 110292494, 2759467987, 1278932041,
     3684834018, 2026328076]"
  by (simp add: compress_def K256_def H256_def sha_eval)

lemma jefe_outer_state:
  "compress H256
     [
     372849209, 1549556828, 1549556828, 1549556828, 1549556828, 1549556828,
     1549556828, 1549556828, 1549556828, 1549556828, 1549556828, 1549556828,
     1549556828, 1549556828, 1549556828, 1549556828] =
     [
     246408149, 323038828, 1785343979, 758602444, 1369767239, 1840289256,
     599761290, 1391542741]"
  by (simp add: compress_def K256_def H256_def sha_eval)

lemma rfc_length: "length (bytes_of ''what do ya want for nothing?'') = 28"
  by (simp add: bytes_of_def)

lemma rfc_block:
  "words_of (bytes_of ''what do ya want for nothing?'' @ [128] @ replicate (55 - 28) 0 @ length_bytes (8 * (64 + 28))) =
     [
     2003329396, 543452960, 2036408439, 1634628640, 1718579744, 1852798056,
     1768843071, 2147483648, 0, 0, 0, 0,
     0, 0, 0, 736]"
  by (simp add: bytes_of_def length_bytes_def replicate_numeral)

lemma rfc_inner:
  "compress
     [
     1700636666, 3426962231, 1511839179, 110292494, 2759467987, 1278932041,
     3684834018, 2026328076]
     [
     2003329396, 543452960, 2036408439, 1634628640, 1718579744, 1852798056,
     1768843071, 2147483648, 0, 0, 0, 0,
     0, 0, 0, 736] =
     [
     2732885382, 1026030040, 1689030016, 607298029, 1199410252, 1865719062,
     3571968279, 3324627671]"
  by (simp add: compress_def K256_def sha_eval)

lemma rfc_inner_block:
  "words_of (concat (map word_bytes
     [
     2732885382, 1026030040, 1689030016, 607298029, 1199410252, 1865719062,
     3571968279, 3324627671])
     @ [128] @ replicate 23 0 @ length_bytes 768) =
     [
     2732885382, 1026030040, 1689030016, 607298029, 1199410252, 1865719062,
     3571968279, 3324627671, 2147483648, 0, 0, 0,
     0, 0, 0, 768]"
  by (simp add: word_bytes_def length_bytes_def replicate_numeral)

lemma rfc_outer:
  "compress
     [
     246408149, 323038828, 1785343979, 758602444, 1369767239, 1840289256,
     599761290, 1391542741]
     [
     2732885382, 1026030040, 1689030016, 607298029, 1199410252, 1865719062,
     3571968279, 3324627671, 2147483648, 0, 0, 0,
     0, 0, 0, 768] =
     [
     1541194054, 3210769742, 1778656294, 144012743, 1509965576, 2636593539,
     2649512121, 1693202499]"
  by (simp add: compress_def K256_def sha_eval)

lemma rfc_hex:
  "hex (concat (map word_bytes
     [
     1541194054, 3210769742, 1778656294, 144012743, 1509965576, 2636593539,
     2649512121, 1693202499])) =
     ''5bdcc146bf60754e6a042426089575c75a003f089d2739839dec58b964ec3843''"
  by (simp add: hex_def hex_digit_def word_bytes_def)

lemma rfc_signature:
  "hmac_sha256_hex ''Jefe'' ''what do ya want for nothing?'' =
     ''5bdcc146bf60754e6a042426089575c75a003f089d2739839dec58b964ec3843''"
proof -
  have key: "length (bytes_of ''Jefe'') \<le> 64"
    by (simp add: bytes_of_def)
  have n: "(28 :: nat) < 56"
    by simp
  show ?thesis
    unfolding hmac_sha256_hex_def hmac_short [OF key rfc_length n]
    unfolding jefe_pads jefe_inner_state jefe_outer_state
    unfolding rfc_block rfc_inner rfc_inner_block rfc_outer
    by (rule rfc_hex)
qed

lemma btc_length: "length (bytes_of ''symbol=BTCUSDT&timestamp=1700000000000'') = 38"
  by (simp add: bytes_of_def)

lemma btc_block:
  "words_of (bytes_of ''symbol=BTCUSDT&timestamp=1700000000000'' @ [128] @ replicate (55 - 38) 0 @ length_bytes (8 * (64 + 38))) =
     [
     1937337698, 1869364546, 1413698899, 1146365556, 1768777075, 1952542064,
     1026635568, 808464432, 808464432, 808484864, 0, 0,
     0, 0, 0, 816]"
  by (simp add: bytes_of_def length_bytes_def replicate_numeral)

lemma btc_inner:
  "compress
     [
     1700636666, 3426962231, 1511839179, 110292494, 2759467987, 1278932041,
     3684834018, 2026328076]
     [
     1937337698, 1869364546, 1413698899, 1146365556, 1768777075, 1952542064,
     1026635568, 808464432, 808464432, 808484864, 0, 0,
     0, 0, 0, 816] =
     [
     3735130576, 3119377458, 1318249908, 2607259318, 2029768790, 2457091554,
     3887542210, 3886085693]"
  by (simp add: compress_def K256_def sha_eval)

lemma btc_inner_block:
  "words_of (concat (map word_bytes
     [
     3735130576, 3119377458, 1318249908, 2607259318, 2029768790, 2457091554,
     3887542210, 3886085693])
     @ [128] @ replicate 23 0 @ length_bytes 768) =
     [
     3735130576, 3119377458, 1318249908, 2607259318, 2029768790, 2457091554,
     3887542210, 3886085693, 2147483648, 0, 0, 0,
     0, 0, 0, 768]"
  by (simp add: word_bytes_def length_bytes_def replicate_numeral)

lemma btc_outer:
  "compress
     [
     246408149, 323038828, 1785343979, 758602444, 1369767239, 1840289256,
     599761290, 1391542741]
     [
     3735130576, 3119377458, 1318249908, 2607259318, 2029768790, 2457091554,
     3887542210, 3886085693, 2147483648, 0, 0, 0,
     0, 0, 0, 768] =
     [
     2371711079, 2901329773, 1894802878, 804422832, 2103881176, 3532950870,
     3547081510, 66926181]"
  by (simp add: compress_def K256_def sha_eval)

lemma btc_hex:
  "hex (concat (map word_bytes
     [
     2371711079, 2901329773, 1894802878, 804422832, 2103881176, 3532950870,
     3547081510, 66926181])) =
     ''8d5d7067aceec76d70f065be2ff284b07d66add8d2948d56d36c2b2603fd3665''"
  by (simp add: hex_def hex_digit_def word_bytes_def)

lemma btc_signature:
  "hmac_sha256_hex ''Jefe'' ''symbol=BTCUSDT&timestamp=1700000000000'' =
     ''8d5d7067aceec76d70f065be2ff284b07d66add8d2948d56d36c2b2603fd3665''"
proof -
  have key: "length (bytes_of ''Jefe'') \<le> 64"
    by (simp add: bytes_of_def)
  have n: "(38 :: nat) < 56"
    by simp
  show ?thesis
    unfolding hmac_sha256_hex_def hmac_short [OF key btc_length n]
    unfolding jefe_pads jefe_inner_state jefe_outer_state
    unfolding btc_block btc_inner btc_inner_block btc_outer
    by (rule btc_hex)
qed

lemma eth_length: "length (bytes_of ''symbol=ETHUSDT&timestamp=1700000000000'') = 38"
  by (simp add: bytes_of_def)

lemma eth_block:
  "words_of (bytes_of ''symbol=ETHUSDT&timestamp=1700000000000'' @ [128] @ replicate (55 - 38) 0 @ length_bytes (8 * (64 + 38))) =
     [
     1937337698, 1869364549, 1414026579, 1146365556, 1768777075, 1952542064,
     1026635568, 808464432, 808464432, 808484864, 0, 0,
     0, 0, 0, 816]"
  by (simp add: bytes_of_def length_bytes_def replicate_numeral)

lemma eth_inner:
  "compress
     [
     1700636666, 3426962231, 1511839179, 110292494, 2759467987, 1278932041,
     3684834018, 2026328076]
     [
     1937337698, 1869364549, 1414026579, 1146365556, 1768777075, 1952542064,
     1026635568, 808464432, 808464432, 808484864, 0, 0,
     0, 0, 0, 816] =
     [
     3815461121, 558392813, 3869161211, 3337487443, 3794518509, 2177248914,
     1865292341, 160297509]"
  by (simp add: compress_def K256_def sha_eval)

lemma eth_inner_block:
  "words_of (concat (map word_bytes
     [
     3815461121, 558392813, 3869161211, 3337487443, 3794518509, 2177248914,
     1865292341, 160297509])
     @ [128] @ replicate 23 0 @ length_bytes 768) =
     [
     3815461121, 558392813, 3869161211, 3337487443, 3794518509, 2177248914,
     1865292341, 160297509, 2147483648, 0, 0, 0,
     0, 0, 0, 768]"
  by (simp add: word_bytes_def length_bytes_def replicate_numeral)

lemma eth_outer:
  "compress
     [
     246408149, 323038828, 1785343979, 758602444, 1369767239, 1840289256,
     599761290, 1391542741]
     [
     3815461121, 558392813, 3869161211, 3337487443, 3794518509, 2177248914,
     1865292341, 160297509, 2147483648, 0, 0, 0,
     0, 0, 0, 768] =
     [
     2109817509, 3001044654, 3136654132, 3032127066, 519234084, 1441987910,
     4163684608, 2805057418]"
  by (simp add: compress_def K256_def sha_eval)

lemma eth_hex:
  "hex (concat (map word_bytes
     [
     2109817509, 3001044654, 3136654132, 3032127066, 519234084, 1441987910,
     4163684608, 2805057418])) =
     ''7dc142a5b2e04eaebaf58b34b4ba965a1ef2e22455f2fd46f82cc900a731c78a''"
  by (simp add: hex_def hex_digit_def word_bytes_def)

lemma eth_signature:
  "hmac_sha256_hex ''Jefe'' ''symbol=ETHUSDT&timestamp=1700000000000'' =
     ''7dc142a5b2e04eaebaf58b34b4ba965a1ef2e22455f2fd46f82cc900a731c78a''"
proof -
  have key: "length (bytes_of ''Jefe'') \<le> 64"
    by (simp add: bytes_of_def)
  have n: "(38 :: nat) < 56"
    by simp
  show ?thesis
    unfolding hmac_sha256_hex_def hmac_short [OF key eth_length n]
    unfolding jefe_pads jefe_inner_state jefe_outer_state
    unfolding eth_block eth_inner eth_inner_block eth_outer
    by (rule eth_hex)
qed

subsection \<open>The digest is 64 lower-case hexadecimal digits\<close>













section \<open>Properties of request signing\<close>

lemma configured_iff: "configured v \<longleftrightarrow> (\<exists>c cs. v = Some (c # cs))"
  by (cases v) (auto simp: configured_def truthy_def neq_Nil_conv)

lemma not_configured_iff: "\<not> configured v \<longleftrightarrow> v = None \<or> v = Some []"
  by (cases v) (auto simp: configured_def truthy_def)


lemma generateSignature_configured:
  "SECRET_KEY e = Some secret \<Longrightarrow> secret \<noteq> [] \<Longrightarrow>
     generateSignature e q = Inr (hmac_sha256_hex secret q)"
  by (simp add: generateSignature_def configured_def truthy_def createHmac_digest_def)

lemma generateSignature_missing:
  "\<not> configured (SECRET_KEY e) \<Longrightarrow>
     generateSignature e q = Inl (Exn ''Error'' ''SECRET_KEY is not configured'')"
  by (simp add: generateSignature_def)

lemma url_plain:
  "urlencode ''symbol'' = ''symbol''" "urlencode ''timestamp'' = ''timestamp''"
  "urlencode ''BTCUSDT'' = ''BTCUSDT''" "urlencode ''ETHUSDT'' = ''ETHUSDT''"
  "urlencode ''1700000000000'' = ''1700000000000''"
  by (simp_all add: urlencode_def urlencode_char_def url_safe_def)

lemma now_digits: "digits_of 1700000000000 = ''1700000000000''"
  by (simp add: digits_of_numeral digits_of_small digit_char_def)

lemma timestamp_query:
  "query_string [(''timestamp'', JNumber some_now)] = ''timestamp=1700000000000''"
  by (simp add: query_string_def some_now_def now_digits url_plain)

lemma symbol_queries:
  "query_string (set_prop btc_params ''timestamp'' (JNumber some_now))
     = ''symbol=BTCUSDT&timestamp=1700000000000''"
  "query_string (set_prop eth_params ''timestamp'' (JNumber some_now))
     = ''symbol=ETHUSDT&timestamp=1700000000000''"
  by (simp_all add: query_string_def btc_params_def eth_params_def some_now_def url_plain
        now_digits)

lemmas concrete_queries = timestamp_query symbol_queries

lemma jefe_secret:
  "SECRET_KEY env_jefe = Some ''Jefe''" "SECRET_KEY env_jefe_other = Some ''Jefe''"
  by (simp_all add: SECRET_KEY_def env_jefe_def env_jefe_other_def)

lemma signed_btc:
  "createSignedParams env_jefe some_now btc_params =
     ([ClockRead, QuerySerialized ''symbol=BTCUSDT&timestamp=1700000000000'', SignatureComputed],
      Inr [(''symbol'', JString ''BTCUSDT''), (''timestamp'', JNumber 1700000000000),
           (''signature'',
            JString ''8d5d7067aceec76d70f065be2ff284b07d66add8d2948d56d36c2b2603fd3665'')])"
  by (simp add: createSignedParams_def Let_def concrete_queries
        generateSignature_configured [OF jefe_secret(1)] btc_signature)
     (simp add: btc_params_def some_now_def)

lemma signed_eth:
  "createSignedParams env_jefe some_now eth_params =
     ([ClockRead, QuerySerialized ''symbol=ETHUSDT&timestamp=1700000000000'', SignatureComputed],
      Inr [(''symbol'', JString ''ETHUSDT''), (''timestamp'', JNumber 1700000000000),
           (''signature'',
            JString ''7dc142a5b2e04eaebaf58b34b4ba965a1ef2e22455f2fd46f82cc900a731c78a'')])"
  by (simp add: createSignedParams_def Let_def concrete_queries
        generateSignature_configured [OF jefe_secret(1)] eth_signature)
     (simp add: eth_params_def some_now_def)

text \<open>
  C2 as stated fails. Without a secret \<open>createSignedParams\<close> throws a plain \<open>Error\<close>
  after it has read the clock and serialized the query string; \<open>sign\<close> has no check,
  so the \<open>TypeError\<close> of the crypto module surfaces, and with an empty secret it signs.
\<close>

theorem sign_without_secret_counterexample:
  "createSignedParams env_without_keys some_now [] =
     ([ClockRead, QuerySerialized ''timestamp=1700000000000''],
      Inl (Exn ''Error'' ''SECRET_KEY is not configured'')) \<and>
   exn_name (Exn ''Error'' ''SECRET_KEY is not configured'') \<noteq> ''ConfigurationError'' \<and>
   sign env_without_keys some_now [] =
     ([ClockRead, QuerySerialized ''timestamp=1700000000000''],
      Inl (Exn ''TypeError'' ''ERR_INVALID_ARG_TYPE: the key argument is undefined'')) \<and>
   (\<exists>signed. sign env_empty_secret some_now [] =
     ([ClockRead, QuerySerialized ''timestamp=1700000000000'', SignatureComputed], Inr signed))"
proof (intro conjI)
  have none: "SECRET_KEY env_without_keys = None"
    by (simp add: SECRET_KEY_def env_without_keys_def)
  show "createSignedParams env_without_keys some_now [] =
     ([ClockRead, QuerySerialized ''timestamp=1700000000000''],
      Inl (Exn ''Error'' ''SECRET_KEY is not configured''))"
    by (simp add: createSignedParams_def Let_def concrete_queries generateSignature_def none
          configured_def)
  show "exn_name (Exn ''Error'' ''SECRET_KEY is not configured'') \<noteq> ''ConfigurationError''"
    by simp
  show "sign env_without_keys some_now [] =
     ([ClockRead, QuerySerialized ''timestamp=1700000000000''],
      Inl (Exn ''TypeError'' ''ERR_INVALID_ARG_TYPE: the key argument is undefined''))"
    by (simp add: sign_def Let_def concrete_queries createHmac_digest_def none)
  have empty: "SECRET_KEY env_empty_secret = Some []"
    by (simp add: SECRET_KEY_def env_empty_secret_def)
  show "\<exists>signed. sign env_empty_secret some_now [] =
     ([ClockRead, QuerySerialized ''timestamp=1700000000000'', SignatureComputed], Inr signed)"
    by (simp add: sign_def Let_def concrete_queries createHmac_digest_def empty)
qed

text \<open>
  C2, amended. For every parameter set, the empty one included, \<open>createSignedParams\<close>
  fails when the secret is empty or absent: it throws an \<open>Error\<close> with the message
  \<open>SECRET_KEY is not configured\<close>. The check is made in \<open>generateSignature\<close>, after the
  clock has been read and the query string serialized, and before any signature is
  computed.
\<close>

theorem createSignedParams_fails_without_secret:
  "SECRET_KEY e = None \<or> SECRET_KEY e = Some [] \<Longrightarrow>
     createSignedParams e now ps =
       ([ClockRead, QuerySerialized (query_string (set_prop ps ''timestamp'' (JNumber now)))],
        Inl (Exn ''Error'' ''SECRET_KEY is not configured''))"
proof -
  assume "SECRET_KEY e = None \<or> SECRET_KEY e = Some []"
  then have "\<not> configured (SECRET_KEY e)"
    by (simp add: not_configured_iff)
  then show ?thesis
    by (simp add: createSignedParams_def Let_def generateSignature_missing)
qed

theorem createSignedParams_fails_without_secret_witness:
  "createSignedParams env_without_keys some_now [] =
     ([ClockRead, QuerySerialized ''timestamp=1700000000000''],
      Inl (Exn ''Error'' ''SECRET_KEY is not configured'')) \<and>
   createSignedParams env_empty_secret some_now btc_params =
     ([ClockRead, QuerySerialized ''symbol=BTCUSDT&timestamp=1700000000000''],
      Inl (Exn ''Error'' ''SECRET_KEY is not configured''))"
proof
  have "SECRET_KEY env_without_keys = None \<or> SECRET_KEY env_without_keys = Some []"
    by (simp add: SECRET_KEY_def env_without_keys_def)
  from createSignedParams_fails_without_secret [OF this, of some_now "[]"]
  show "createSignedParams env_without_keys some_now [] =
     ([ClockRead, QuerySerialized ''timestamp=1700000000000''],
      Inl (Exn ''Error'' ''SECRET_KEY is not configured''))"
    by (simp add: concrete_queries)
  have "SECRET_KEY env_empty_secret = None \<or> SECRET_KEY env_empty_secret = Some []"
    by (simp add: SECRET_KEY_def env_empty_secret_def)
  from createSignedParams_fails_without_secret [OF this, of some_now btc_params]
  show "createSignedParams env_empty_secret some_now btc_params =
     ([ClockRead, QuerySerialized ''symbol=BTCUSDT&timestamp=1700000000000''],
      Inl (Exn ''Error'' ''SECRET_KEY is not configured''))"
    by (simp add: concrete_queries)
qed



text \<open>
  C6. The signed output is a function of the secret, the time and the parameters alone:
  two environments with the same secret give the same output for the same time and
  parameters. And at one time, under one secret, the parameter sets \<open>symbol=BTCUSDT\<close> and
  \<open>symbol=ETHUSDT\<close>, which differ in one value, get different signatures.
\<close>

theorem signing_deterministic_and_sensitive:
  "(SECRET_KEY e1 = SECRET_KEY e2 \<longrightarrow>
      createSignedParams e1 now ps = createSignedParams e2 now ps) \<and>
   (\<exists>s1 s2.
      map_of (projr (snd (createSignedParams env_jefe some_now btc_params))) ''signature''
        = Some (JString s1) \<and>
      map_of (projr (snd (createSignedParams env_jefe some_now eth_params))) ''signature''
        = Some (JString s2) \<and>
      s1 \<noteq> s2)"
proof (intro conjI impI)
  assume same: "SECRET_KEY e1 = SECRET_KEY e2"
  show "createSignedParams e1 now ps = createSignedParams e2 now ps"
    unfolding createSignedParams_def generateSignature_def same by (rule refl)
next
  have "''8d5d7067aceec76d70f065be2ff284b07d66add8d2948d56d36c2b2603fd3665'' \<noteq>
        ''7dc142a5b2e04eaebaf58b34b4ba965a1ef2e22455f2fd46f82cc900a731c78a''"
    by simp
  then show "\<exists>s1 s2.
      map_of (projr (snd (createSignedParams env_jefe some_now btc_params))) ''signature''
        = Some (JString s1) \<and>
      map_of (projr (snd (createSignedParams env_jefe some_now eth_params))) ''signature''
        = Some (JString s2) \<and>
      s1 \<noteq> s2"
    unfolding signed_btc signed_eth by simp
qed

theorem signing_deterministic_and_sensitive_witness:
  "createSignedParams env_jefe some_now btc_params =
     createSignedParams env_jefe_other some_now btc_params \<and>
   env_jefe \<noteq> env_jefe_other"
proof
  have "SECRET_KEY env_jefe = SECRET_KEY env_jefe_other"
    by (simp add: jefe_secret)
  with signing_deterministic_and_sensitive [of env_jefe env_jefe_other some_now btc_params]
  show "createSignedParams env_jefe some_now btc_params =
     createSignedParams env_jefe_other some_now btc_params"
    by blast
  show "env_jefe \<noteq> env_jefe_other"
    by (simp add: env_jefe_def env_jefe_other_def)
qed

section \<open>Properties of the health check\<close>

lemma health_with_debug_ok:
  "\<exists>body. health_with_debug e now_iso = Inr (200, body) \<and>
          apiKeyConfigured body = configured (API_KEY e) \<and>
          secretKeyConfigured body = configured (SECRET_KEY e)"
proof -
  have len: "\<exists>n. (if configured v then js_length v else Inr 0) = Inr n" for v
    by (cases v) (simp_all add: configured_def js_length_def)
  have sub: "\<exists>s. (if configured v then map_sum id (\<lambda>s. s @ ''...'') (js_substring v 0 8)
                   else Inr ''undefined'') = Inr s" for v
    by (cases v) (simp_all add: configured_def js_substring_def)
  obtain n1 where n1: "(if configured (map_of e ''BINANCE_API_KEY'')
      then js_length (map_of e ''BINANCE_API_KEY'') else Inr 0) = Inr n1"
    using len by blast
  obtain n2 where n2: "(if configured (map_of e ''BINANCE_SECRET_KEY'')
      then js_length (map_of e ''BINANCE_SECRET_KEY'') else Inr 0) = Inr n2"
    using len by blast
  obtain s where s: "(if configured (map_of e ''BINANCE_API_KEY'')
      then map_sum id (\<lambda>s. s @ ''...'') (js_substring (map_of e ''BINANCE_API_KEY'') 0 8)
      else Inr ''undefined'') = Inr s"
    using sub by blast
  show ?thesis
    unfolding health_with_debug_def Let_def n1 n2 s
    by (simp add: API_KEY_def SECRET_KEY_def)
qed

text \<open>
  C9. For every environment both health handlers answer with status 200 and throw
  nothing; the flags \<open>apiKeyConfigured\<close> and \<open>secretKeyConfigured\<close> are the truth values
  of the two variables: false for a variable that is absent (or empty), true for one that
  is set to a string that is not empty. With neither variable set both flags are false.
\<close>

theorem health_never_throws:
  "(\<exists>body. health e now_iso = Inr (200, body) \<and>
          apiKeyConfigured body = configured (API_KEY e) \<and>
          secretKeyConfigured body = configured (SECRET_KEY e)) \<and>
   (\<exists>body. health_with_debug e now_iso = Inr (200, body) \<and>
          apiKeyConfigured body = configured (API_KEY e) \<and>
          secretKeyConfigured body = configured (SECRET_KEY e)) \<and>
   configured None = False \<and> configured (Some []) = False \<and>
   configured (Some (c # cs)) = True \<and>
   health env_without_keys now_iso =
     Inr (200, \<lparr> status = ''ok'', timestamp_iso = now_iso,
                 service = ''Binance Wallet Balance API'',
                 apiKeyConfigured = False, secretKeyConfigured = False \<rparr>)"
proof (intro conjI)
  show "\<exists>body. health e now_iso = Inr (200, body) \<and>
          apiKeyConfigured body = configured (API_KEY e) \<and>
          secretKeyConfigured body = configured (SECRET_KEY e)"
    by (simp add: health_def)
  show "\<exists>body. health_with_debug e now_iso = Inr (200, body) \<and>
          apiKeyConfigured body = configured (API_KEY e) \<and>
          secretKeyConfigured body = configured (SECRET_KEY e)"
    by (rule health_with_debug_ok)
  show "configured None = False" "configured (Some []) = False"
    "configured (Some (c # cs)) = True"
    by (simp_all add: configured_def truthy_def)
  show "health env_without_keys now_iso =
     Inr (200, \<lparr> status = ''ok'', timestamp_iso = now_iso,
                 service = ''Binance Wallet Balance API'',
                 apiKeyConfigured = False, secretKeyConfigured = False \<rparr>)"
    by (simp add: health_def API_KEY_def SECRET_KEY_def env_without_keys_def configured_def)
qed

end
